theory Spec2Isabelle
  imports Main
begin

section \<open>JavaScript values\<close>

text \<open>
  The values that flow through \<^verbatim>\<open>component.js\<close>: reducer results, action data, state
  snapshots, request objects. A function value is opaque (it is named, never called
  through this type); the functions the component does call (reducers, route handlers,
  the response function) are HOL functions in the definitions below. Objects are plain
  data objects: a list of own enumerable properties in insertion order, without
  user-defined \<^verbatim>\<open>toString\<close>/\<^verbatim>\<open>valueOf\<close>. Two kinds of object convert to a primitive
  in their own way and are values of their own: arrays, and the String objects made by
  \<^verbatim>\<open>new String(s)\<close>. Numbers are integers: nothing below does arithmetic on them.
\<close>

datatype jsval =
    JUndefined
  | JNull
  | JBool bool
  | JNum int
  | JBigInt int
  | JStr string
  | JSymbol string
  | JFun string
  | JObj "(string \<times> jsval) list"
  | JArr "jsval list"
  | JStrObj string

text \<open>The \<^verbatim>\<open>typeof\<close> operator.\<close>

fun typeof :: "jsval \<Rightarrow> string" where
  "typeof JUndefined = ''undefined''"
| "typeof JNull = ''object''"
| "typeof (JBool b) = ''boolean''"
| "typeof (JNum n) = ''number''"
| "typeof (JBigInt n) = ''bigint''"
| "typeof (JStr s) = ''string''"
| "typeof (JSymbol d) = ''symbol''"
| "typeof (JFun f) = ''function''"
| "typeof (JObj ps) = ''object''"
| "typeof (JArr xs) = ''object''"
| "typeof (JStrObj s) = ''object''"

text \<open>Truthiness, as tested by \<^verbatim>\<open>if (v)\<close>, \<^verbatim>\<open>!v\<close>, \<^verbatim>\<open>a || b\<close>, \<^verbatim>\<open>a && b\<close> and \<^verbatim>\<open>c ? a : b\<close>.\<close>

fun truthy :: "jsval \<Rightarrow> bool" where
  "truthy JUndefined = False"
| "truthy JNull = False"
| "truthy (JBool b) = b"
| "truthy (JNum n) = (n \<noteq> 0)"
| "truthy (JBigInt n) = (n \<noteq> 0)"
| "truthy (JStr s) = (s \<noteq> [])"
| "truthy (JSymbol d) = True"
| "truthy (JFun f) = True"
| "truthy (JObj ps) = True"
| "truthy (JArr xs) = True"
| "truthy (JStrObj s) = True"

text \<open>\<^verbatim>\<open>a || b\<close> and \<^verbatim>\<open>a && b\<close> return one of their operands.\<close>

definition js_or :: "jsval \<Rightarrow> jsval \<Rightarrow> jsval" where
  "js_or a b = (if truthy a then a else b)"

definition js_and :: "jsval \<Rightarrow> jsval \<Rightarrow> jsval" where
  "js_and a b = (if truthy a then b else a)"

text \<open>
  Property read \<^verbatim>\<open>v.k\<close>. The source reads \<^verbatim>\<open>id\<close>, \<^verbatim>\<open>data\<close>, \<^verbatim>\<open>_reqId\<close>, \<^verbatim>\<open>_action\<close>,
  \<^verbatim>\<open>params\<close>, \<^verbatim>\<open>body\<close>, \<^verbatim>\<open>cookies\<close>, \<^verbatim>\<open>get\<close>, \<^verbatim>\<open>method\<close> and \<^verbatim>\<open>url\<close>; none of them is a
  built-in property of a primitive, an array or a String object, so a read on one of
  these gives \<^verbatim>\<open>undefined\<close>. A read
  on \<^verbatim>\<open>undefined\<close> or \<^verbatim>\<open>null\<close> raises a TypeError in JavaScript: every definition below
  that reads a property of a possibly missing value writes that case out before calling
  \<open>js_get\<close>.
\<close>

fun js_get :: "jsval \<Rightarrow> string \<Rightarrow> jsval" where
  "js_get (JObj ps) k = (case map_of ps k of Some v \<Rightarrow> v | None \<Rightarrow> JUndefined)"
| "js_get v k = JUndefined"

text \<open>
  Writing a property in an object literal after a spread: an existing key keeps its place
  and takes the new value, a new key goes to the end.
\<close>

fun put :: "string \<Rightarrow> jsval \<Rightarrow> (string \<times> jsval) list \<Rightarrow> (string \<times> jsval) list" where
  "put k v [] = [(k, v)]"
| "put k v ((k', v') # ps) = (if k = k' then (k, v) # ps else (k', v') # put k v ps)"

text \<open>Decimal rendering of an array-like index, for the keys of a spread string.\<close>

definition digit_char :: "nat \<Rightarrow> char" where
  "digit_char d = (''0123456789'' ! (d mod 10))"

fun show_nat :: "nat \<Rightarrow> string" where
  "show_nat n = (if n < 10 then [digit_char n] else show_nat (n div 10) @ [digit_char (n mod 10)])"

declare show_nat.simps [simp del]

definition show_int :: "int \<Rightarrow> string" where
  "show_int i = (if i < 0 then ''-'' @ show_nat (nat (- i)) else show_nat (nat i))"

text \<open>
  The own enumerable properties copied by \<^verbatim>\<open>{ ...v }\<close>: those of an object, the indexed
  characters of a string or String object, the indexed elements of an array, and
  nothing for any other value (\<^verbatim>\<open>null\<close> and \<^verbatim>\<open>undefined\<close> included).
\<close>

fun spread :: "jsval \<Rightarrow> (string \<times> jsval) list" where
  "spread (JObj ps) = ps"
| "spread (JStr s) = map (\<lambda>i. (show_nat i, JStr [s ! i])) [0 ..< length s]"
| "spread (JStrObj s) = map (\<lambda>i. (show_nat i, JStr [s ! i])) [0 ..< length s]"
| "spread (JArr xs) = map (\<lambda>i. (show_nat i, xs ! i)) [0 ..< length xs]"
| "spread v = []"

text \<open>A thrown exception: \<^verbatim>\<open>new Error(message)\<close> or a TypeError raised by the runtime.\<close>

datatype js_error = Error string | TypeError string

text \<open>
  Conversion to a string, as a template literal and \<^verbatim>\<open>Array.prototype.join\<close> do it. A
  symbol cannot be converted: a TypeError is raised. A plain object gives
  \<^verbatim>\<open>[object Object]\<close>, a String object its string, a function its source text (a
  rendering of it: whatever the text, it is that of a function). An array joins its
  elements with commas, \<^verbatim>\<open>undefined\<close> and \<^verbatim>\<open>null\<close> elements giving the empty string.
\<close>

definition fun_text :: "string \<Rightarrow> string" where
  "fun_text f = ''function '' @ f @ ''() { [native code] }''"

fun to_string :: "jsval \<Rightarrow> js_error + string"
  and join :: "jsval list \<Rightarrow> js_error + string" where
  "to_string JUndefined = Inr ''undefined''"
| "to_string JNull = Inr ''null''"
| "to_string (JBool b) = Inr (if b then ''true'' else ''false'')"
| "to_string (JNum n) = Inr (show_int n)"
| "to_string (JBigInt n) = Inr (show_int n)"
| "to_string (JStr s) = Inr s"
| "to_string (JSymbol d) = Inl (TypeError ''Cannot convert a Symbol value to a string'')"
| "to_string (JFun f) = Inr (fun_text f)"
| "to_string (JObj ps) = Inr ''[object Object]''"
| "to_string (JArr xs) = join xs"
| "to_string (JStrObj s) = Inr s"
| "join [] = Inr []"
| "join (x # xs) =
     (case (if x = JUndefined \<or> x = JNull then Inr [] else to_string x) of
        Inl e \<Rightarrow> Inl e
      | Inr s \<Rightarrow>
          (if xs = [] then Inr s
           else (case join xs of Inl e \<Rightarrow> Inl e | Inr t \<Rightarrow> Inr (s @ '','' @ t))))"

text \<open>
  \<^verbatim>\<open>export const ABORT = '~~ABORT~~'\<close>, and the loose comparison \<^verbatim>\<open>v == ABORT\<close> of a
  value with that string. Two strings are equal when they are the same string.
  \<^verbatim>\<open>undefined\<close> and \<^verbatim>\<open>null\<close> are loosely equal only to each other. A boolean, a number
  or a bigint is compared with the numeric value of the string, which is NaN here, so
  the comparison is false. A symbol equals only itself. An object or function is first
  converted to a primitive and that is compared: \<^verbatim>\<open>[object Object]\<close> for a plain
  object and the source text for a function, neither of which is the sentinel; its
  string for a String object; the joined elements for an array. Where the conversion
  of an array raises (it holds a symbol), the comparison raises: \<open>comparison_raises\<close>
  says so, and \<open>eq_ABORT\<close> is false there.
\<close>

definition ABORT :: jsval where
  "ABORT = JStr ''~~ABORT~~''"

fun eq_ABORT :: "jsval \<Rightarrow> bool" where
  "eq_ABORT (JStr s) = (s = ''~~ABORT~~'')"
| "eq_ABORT (JStrObj s) = (s = ''~~ABORT~~'')"
| "eq_ABORT (JArr xs) = (join xs = Inr ''~~ABORT~~'')"
| "eq_ABORT v = False"

fun comparison_raises :: "jsval \<Rightarrow> bool" where
  "comparison_raises (JArr xs) = isl (join xs)"
| "comparison_raises v = False"

section \<open>Actions, effects and reducers\<close>

text \<open>
  An action on the bus. The request handler synthesises
  \<^verbatim>\<open>{ type, data: body, req, _reqId, _action: type }\<close>, the intent mapping gives
  \<^verbatim>\<open>{ type, data }\<close>, a dispatch gives \<^verbatim>\<open>{ type, data: _data }\<close>; a field that is absent
  is \<open>JUndefined\<close>.
\<close>

record action =
  atype :: string
  adata :: jsval
  areq :: jsval
  a_reqId :: jsval
  a_action :: jsval

text \<open>
  A reducer \<^verbatim>\<open>(state, data, next, req) => value\<close> of the user. Its effect on the
  component is its return value together with the calls of \<^verbatim>\<open>next(type, data)\<close> it makes,
  in order.
\<close>

type_synonym dispatch_call = "string \<times> jsval"

type_synonym reducer_fn = "jsval \<Rightarrow> jsval \<Rightarrow> jsval \<Rightarrow> jsval \<times> dispatch_call list"

text \<open>
  What a callback of the component does to the bus: it pushes an action into the action
  stream now, \<^verbatim>\<open>stream.shamefullySendNext(a)\<close>, or it sets a timer,
  \<^verbatim>\<open>setTimeout(() => { ... }, ms)\<close>, whose callback has effects of its own when it runs.
\<close>

datatype effect = ShamefullySendNext action | SetTimeout nat "effect list"

section \<open>\<^verbatim>\<open>makeOnAction\<close>: the callback mapped over the filtered action stream\<close>

text \<open>\<^verbatim>\<open>action._reqId || (action.req && action.req.id)\<close>\<close>

definition request_id_of :: "action \<Rightarrow> jsval" where
  "request_id_of a = js_or (a_reqId a) (js_and (areq a) (js_get (areq a) ''id''))"

text \<open>The \<^verbatim>\<open>_data\<close> computed by the \<^verbatim>\<open>next\<close> closure.\<close>

definition next_data :: "action \<Rightarrow> string \<Rightarrow> jsval \<Rightarrow> jsval" where
  "next_data a name d =
     (let rid = request_id_of a in
      if truthy rid
      then (if typeof d = ''object''
            then JObj (put ''_action'' (JStr name) (put ''_reqId'' rid (spread d)))
            else JObj [(''data'', d), (''_reqId'', rid), (''_action'', JStr name)])
      else d)"

text \<open>
  One call \<^verbatim>\<open>next(type, data)\<close>:
  \<^verbatim>\<open>setTimeout(() => { rootAction$.shamefullySendNext({ type, data: _data }) }, 10)\<close>.
\<close>

definition dispatched :: "action \<Rightarrow> string \<Rightarrow> dispatch_call \<Rightarrow> action" where
  "dispatched a name c =
     \<lparr>atype = fst c, adata = next_data a name (snd c), areq = JUndefined,
      a_reqId = JUndefined, a_action = JUndefined\<rparr>"

definition next_call :: "action \<Rightarrow> string \<Rightarrow> dispatch_call \<Rightarrow> effect" where
  "next_call a name c = SetTimeout 10 [ShamefullySendNext (dispatched a name c)]"

text \<open>\<^verbatim>\<open>let data = action.data; if (data && data.data && data._reqId) data = data.data\<close>\<close>

definition action_payload :: "action \<Rightarrow> jsval" where
  "action_payload a =
     (let d = adata a in
      if truthy d \<and> truthy (js_get d ''data'') \<and> truthy (js_get d ''_reqId'')
      then js_get d ''data'' else d)"

text \<open>
  State sink: the callback returns the function \<^verbatim>\<open>(state) => ...\<close>. Calling that function
  (the state driver does, with the state current at that time) runs the reducer, with
  the effects of its dispatches, and returns the next state. For a result whose
  comparison with the sentinel raises (\<open>comparison_raises\<close>) the function of the source
  raises too and returns nothing: \<open>state_reducer\<close> describes the calls that return, and
  \<open>invoke_state\<close> below has the raise as a branch.
\<close>

definition state_reducer :: "string \<Rightarrow> reducer_fn \<Rightarrow> action \<Rightarrow> jsval \<Rightarrow> jsval \<times> effect list" where
  "state_reducer name reducer a state =
     (let (newState, calls) = reducer state (action_payload a) (areq a) in
      (if eq_ABORT newState then state else newState, map (next_call a name) calls))"

text \<open>
  Any other sink: the reducer runs at once on the cached state \<^verbatim>\<open>this.currentState\<close>, and
  its result is classified by \<^verbatim>\<open>typeof\<close>.
\<close>

record invocation =
  outcome :: "js_error + jsval"
  warned :: "string list"
  timers :: "effect list"

definition effect_reducer :: "jsval \<Rightarrow> string \<Rightarrow> reducer_fn \<Rightarrow> action \<Rightarrow> invocation" where
  "effect_reducer currentState name reducer a =
     (let (reduced, calls) = reducer currentState (action_payload a) (areq a);
          ts = map (next_call a name) calls;
          ty = typeof reduced;
          rid = request_id_of a
      in if ty \<in> set [''string'', ''number'', ''boolean'', ''function'']
         then \<lparr>outcome = Inr reduced, warned = [], timers = ts\<rparr>
         else if ty = ''object''
         then \<lparr>outcome = Inr (JObj (put ''_action'' (JStr name) (put ''_reqId'' rid (spread reduced)))),
               warned = [], timers = ts\<rparr>
         else if ty = ''undefined''
         then \<lparr>outcome = Inr reduced,
               warned = [[CHR 0x27] @ ''undefined'' @ [CHR 0x27] @ '' value sent to '' @ name], timers = ts\<rparr>
         else \<lparr>outcome = Inl (Error (''Invalid reducer type for '' @ name @ '' '' @ ty)),
               warned = [], timers = ts\<rparr>)"

text \<open>
  What a sink stream emits: a plain value, or (state sink) a function from the current
  state to the next one.
\<close>

datatype emission = Value jsval | Reducer "jsval \<Rightarrow> jsval \<times> effect list"

text \<open>
  \<^verbatim>\<open>.filter(result => result != ABORT)\<close>; a function is never loosely equal to the string.
  The values that reach this filter are primitives, functions and the stamped plain
  objects: their comparison does not raise.
\<close>

fun passes_filter :: "emission \<Rightarrow> bool" where
  "passes_filter (Value v) = (\<not> eq_ABORT v)"
| "passes_filter (Reducer f) = True"

text \<open>
  What a model entry gives for one sink: a function (\<^verbatim>\<open>typeof reducer === 'function'\<close>),
  \<^verbatim>\<open>undefined\<close>, \<^verbatim>\<open>true\<close>, or any other value.
\<close>

datatype reducer = RFunction reducer_fn | RUndefined | RTrue | RValue jsval

text \<open>
  \<^verbatim>\<open>(name, reducer) => ...\<close> applied to one action that passed \<^verbatim>\<open>type == name\<close>. The result is
  the thrown error, or what the returned stream emits for this action: \<open>None\<close> when the
  final filter drops it. Only the function branch has that filter. \<open>currentState\<close> is
  \<^verbatim>\<open>this.currentState\<close> at the time the action is delivered.
\<close>

fun on_action :: "bool \<Rightarrow> jsval \<Rightarrow> string \<Rightarrow> reducer \<Rightarrow> action \<Rightarrow> js_error + emission option" where
  "on_action isStateSink currentState name (RFunction r) a =
     (if isStateSink
      then Inr (Some (Reducer (state_reducer name r a)))
      else (case outcome (effect_reducer currentState name r a) of
              Inl e \<Rightarrow> Inl e
            | Inr v \<Rightarrow> Inr (if passes_filter (Value v) then Some (Value v) else None)))"
| "on_action isStateSink currentState name RUndefined a = Inr (Some (Value (adata a)))"
| "on_action isStateSink currentState name RTrue a = Inr (Some (Value (adata a)))"
| "on_action isStateSink currentState name (RValue v) a = Inr (Some (Value v))"

text \<open>
  A stream as the sequence of its emissions. An exception thrown by the function given
  to \<^verbatim>\<open>map\<close> is delivered by xstream as the error of the mapped stream, which ends it:
  \<open>emit_all\<close> stops at the first error.
\<close>

fun emit_all :: "('a \<Rightarrow> js_error + emission option) \<Rightarrow> 'a list \<Rightarrow> emission list \<times> js_error option" where
  "emit_all f [] = ([], None)"
| "emit_all f (x # xs) =
     (case f x of
        Inl e \<Rightarrow> ([], Some e)
      | Inr None \<Rightarrow> emit_all f xs
      | Inr (Some y) \<Rightarrow> (case emit_all f xs of (ys, err) \<Rightarrow> (y # ys, err)))"

text \<open>
  An action as delivered on the bus, paired with the value \<^verbatim>\<open>this.currentState\<close> has at
  that moment.
\<close>

type_synonym delivery = "jsval \<times> action"

text \<open>
  \<^verbatim>\<open>makeOnAction(action$, isStateSink, rootAction$)(name, reducer)\<close>: the actions of the
  stream with \<^verbatim>\<open>type == name\<close>, mapped.
\<close>

definition makeOnAction :: "delivery list \<Rightarrow> bool \<Rightarrow> string \<Rightarrow> reducer \<Rightarrow> emission list \<times> js_error option" where
  "makeOnAction action_s isStateSink name reducer =
     emit_all (\<lambda>d. on_action isStateSink (fst d) name reducer (snd d))
       (filter (\<lambda>d. atype (snd d) = name) action_s)"

section \<open>The model: \<^verbatim>\<open>initState\<close> and \<^verbatim>\<open>initModel$\<close>\<close>

definition BOOTSTRAP_ACTION :: string where
  "BOOTSTRAP_ACTION = ''BOOTSTRAP''"

definition INITIALIZE_ACTION :: string where
  "INITIALIZE_ACTION = ''INITIALIZE''"

definition HYDRATE_ACTION :: string where
  "HYDRATE_ACTION = ''HYDRATE''"

text \<open>
  The value of a model entry: a bare reducer function, an object from sink names to
  reducers, or a value that is neither (a number or boolean, say), which \<^verbatim>\<open>initModel$\<close>
  rejects. The model itself is an object from action names to such entries.
\<close>

datatype sinks_entry =
    SFunction reducer_fn
  | SObject "(string \<times> reducer) list"
  | SNonObject

type_synonym model_table = "(string \<times> sinks_entry) list"

text \<open>The handler \<^verbatim>\<open>(_, data) => ({ ...data })\<close> that \<^verbatim>\<open>initState\<close> installs.\<close>

definition default_initialize :: reducer_fn where
  "default_initialize = (\<lambda>state d req. (JObj (spread d), []))"

text \<open>
  \<^verbatim>\<open>initState\<close>: a model without \<^verbatim>\<open>INITIALIZE\<close> gets the default handler on the state
  sink; a model with one loses its \<^verbatim>\<open>INITIALIZE\<close> handlers for other sinks, with a
  warning each. \<^verbatim>\<open>Object.keys\<close> of a function or of a number is empty.
\<close>

fun strip_initialize :: "string \<Rightarrow> sinks_entry \<Rightarrow> sinks_entry" where
  "strip_initialize stateSourceName (SObject sinks) =
     SObject (filter (\<lambda>e. fst e = stateSourceName) sinks)"
| "strip_initialize stateSourceName e = e"

fun initialize_warnings :: "string \<Rightarrow> sinks_entry \<Rightarrow> string list" where
  "initialize_warnings stateSourceName (SObject sinks) =
     map (\<lambda>e. INITIALIZE_ACTION @ '' can only be used with the '' @ stateSourceName
               @ '' source... disregarding '' @ fst e)
       (filter (\<lambda>e. fst e \<noteq> stateSourceName) sinks)"
| "initialize_warnings stateSourceName e = []"

definition initState :: "string \<Rightarrow> model_table option \<Rightarrow> model_table option \<times> string list" where
  "initState stateSourceName model =
     (case model of
        None \<Rightarrow> (None, [])
      | Some m \<Rightarrow>
          (case map_of m INITIALIZE_ACTION of
             None \<Rightarrow>
               (Some (m @ [(INITIALIZE_ACTION,
                            SObject [(stateSourceName, RFunction default_initialize)])]), [])
           | Some e \<Rightarrow>
               (Some (map (\<lambda>p. if fst p = INITIALIZE_ACTION
                                then (fst p, strip_initialize stateSourceName (snd p)) else p) m),
                initialize_warnings stateSourceName e)))"

text \<open>
  \<^verbatim>\<open>initModel$\<close>, wiring: for every action of the model and every sink of its entry, the
  pair (action, reducer) is appended to \<^verbatim>\<open>reducers[sink]\<close>.
\<close>

type_synonym registration = "string \<times> reducer"

fun add_reducer :: "string \<Rightarrow> registration \<Rightarrow> (string \<times> registration list) list
    \<Rightarrow> (string \<times> registration list) list" where
  "add_reducer sink r [] = [(sink, [r])]"
| "add_reducer sink r ((s, rs) # rest) =
     (if s = sink then (s, rs @ [r]) # rest else (s, rs) # add_reducer sink r rest)"

fun entry_sinks :: "string \<Rightarrow> string \<Rightarrow> string \<Rightarrow> sinks_entry \<Rightarrow> js_error + (string \<times> reducer) list" where
  "entry_sinks name stateSourceName act (SFunction f) = Inr [(stateSourceName, RFunction f)]"
| "entry_sinks name stateSourceName act (SObject sinks) = Inr sinks"
| "entry_sinks name stateSourceName act SNonObject =
     Inl (Error (''Entry for each action must be an object: '' @ name @ '' '' @ act))"

fun model_reducers :: "string \<Rightarrow> string \<Rightarrow> model_table \<Rightarrow> (string \<times> registration list) list
    \<Rightarrow> js_error + (string \<times> registration list) list" where
  "model_reducers name stateSourceName [] acc = Inr acc"
| "model_reducers name stateSourceName ((act, sinks) # rest) acc =
     (case entry_sinks name stateSourceName act sinks of
        Inl e \<Rightarrow> Inl e
      | Inr ss \<Rightarrow>
          model_reducers name stateSourceName rest
            (fold (\<lambda>sr. add_reducer (fst sr) (act, snd sr)) ss acc))"

text \<open>
  \<^verbatim>\<open>initModel$\<close>, the stream of one sink: \<^verbatim>\<open>xs.merge(xs.never(), ...streams)\<close> of the
  streams registered for it. They are all made by the same \<^verbatim>\<open>on\<close> from the same source
  stream (\<^verbatim>\<open>shimmed$\<close> for the state sink, \<^verbatim>\<open>action$\<close> for any other), so the merge emits
  action by action, and for one action in the order of registration. \<^verbatim>\<open>shimmed$\<close> is
  \<^verbatim>\<open>concat(xs.of(initial), action$).compose(delay(0))\<close> when \<^verbatim>\<open>this.initialState\<close> is
  truthy, else \<^verbatim>\<open>action$\<close> itself.
\<close>

definition initial_action :: "jsval \<Rightarrow> action" where
  "initial_action initialState =
     \<lparr>atype = INITIALIZE_ACTION, adata = initialState, areq = JUndefined,
      a_reqId = JUndefined, a_action = JUndefined\<rparr>"

definition shimmed :: "jsval \<Rightarrow> jsval \<Rightarrow> delivery list \<Rightarrow> delivery list" where
  "shimmed initialState currentState action_s =
     (if truthy initialState then (currentState, initial_action initialState) # action_s
      else action_s)"

definition merged_on :: "bool \<Rightarrow> registration list \<Rightarrow> delivery list \<Rightarrow> emission list \<times> js_error option" where
  "merged_on isStateSink regs source =
     emit_all (\<lambda>(d, r). on_action isStateSink (fst d) (fst r) (snd r) (snd d))
       (concat (map (\<lambda>d. map (\<lambda>r. (d, r)) (filter (\<lambda>r. atype (snd d) = fst r) regs)) source))"

definition model_sink :: "string \<Rightarrow> jsval \<Rightarrow> jsval \<Rightarrow> (string \<times> registration list) list
    \<Rightarrow> string \<Rightarrow> delivery list \<Rightarrow> emission list \<times> js_error option" where
  "model_sink stateSourceName initialState currentState reducers sink action_s =
     (case map_of reducers sink of
        None \<Rightarrow> ([], None)
      | Some regs \<Rightarrow>
          (if sink = stateSourceName
           then merged_on True regs (shimmed initialState currentState action_s)
           else merged_on False regs action_s))"

text \<open>
  The state driver is outside this repository. Its contract: it folds the functions the
  state sink emits, starting from \<^verbatim>\<open>undefined\<close>, and the state stream carries each
  result. \<open>state_seq\<close> takes the starting state as a parameter. A sink value that is not a
  function cannot be applied, and the fold ends there.
\<close>

fun state_seq :: "emission list \<Rightarrow> jsval \<Rightarrow> jsval list" where
  "state_seq [] s = []"
| "state_seq (Reducer f # es) s = fst (f s) # state_seq es (fst (f s))"
| "state_seq (Value v # es) s = []"

section \<open>Sources and the request router: \<^verbatim>\<open>initResponse$\<close>\<close>

text \<open>
  A source object of the \<^verbatim>\<open>sources\<close> map, by the capabilities the component probes:
  whether it has a \<^verbatim>\<open>stream\<close>, which of its properties are functions (\<^verbatim>\<open>get\<close>, \<^verbatim>\<open>post\<close>,
  \<^verbatim>\<open>select\<close>, \<^verbatim>\<open>request\<close>, ...), what the call \<^verbatim>\<open>source.request(id)\<close> does (it throws, or
  returns a stream, given by what it emits), and what
  \<^verbatim>\<open>source.select('initial').flatten()\<close> emits.
\<close>

record source =
  src_has_stream :: bool
  src_functions :: "string list"
  src_request :: "jsval \<Rightarrow> js_error + jsval list"
  src_initial :: "jsval list"

type_synonym sources = "(string \<times> source) list"

definition REQUEST_SELECTOR_METHOD :: string where
  "REQUEST_SELECTOR_METHOD = ''request''"

text \<open>\<^verbatim>\<open>toLowerCase\<close> and \<^verbatim>\<open>toUpperCase\<close> on the letters A to Z.\<close>

definition toLowerCase :: "string \<Rightarrow> string" where
  "toLowerCase s =
     map (\<lambda>c. case map_of (zip ''ABCDEFGHIJKLMNOPQRSTUVWXYZ'' ''abcdefghijklmnopqrstuvwxyz'') c of
                Some l \<Rightarrow> l | None \<Rightarrow> c) s"

definition toUpperCase :: "string \<Rightarrow> string" where
  "toUpperCase s =
     map (\<lambda>c. case map_of (zip ''abcdefghijklmnopqrstuvwxyz'' ''ABCDEFGHIJKLMNOPQRSTUVWXYZ'') c of
                Some u \<Rightarrow> u | None \<Rightarrow> c) s"

text \<open>
  The value a route is mapped to in the \<^verbatim>\<open>request\<close> object, and what is left of it after
  the checks at wiring time: an action name or a function \<^verbatim>\<open>(currentState, req) => data\<close>,
  which may throw.
\<close>

datatype route_action =
    ActionUndefined
  | ActionName string
  | ActionFunction "jsval \<Rightarrow> jsval \<Rightarrow> js_error + jsval"
  | ActionOther

datatype target = ToAction string | ToFunction "jsval \<Rightarrow> jsval \<Rightarrow> js_error + jsval"

record route =
  r_method :: string
  r_route :: string
  r_target :: target

definition routeString :: "route \<Rightarrow> string" where
  "routeString r =
     ''['' @ toUpperCase (r_method r) @ '']:'' @ (if r_route r \<noteq> [] then r_route r else ''none'')"

text \<open>
  The console. The access line \<^verbatim>\<open>`${timestamp} ${ip} ${req.method} ${req.url}`\<close> is kept
  as its three converted fields; the clock is not modelled.
\<close>

datatype console_entry =
    AccessLog string string string
  | ConsoleWarn string
  | ConsoleError js_error

text \<open>The object \<^verbatim>\<open>{ type, data, req, _reqId, _action }\<close> as a value.\<close>

definition action_obj :: "action \<Rightarrow> jsval" where
  "action_obj a =
     JObj [(''type'', JStr (atype a)), (''data'', adata a), (''req'', areq a),
           (''_reqId'', a_reqId a), (''_action'', a_action a)]"

text \<open>
  What the function mapped over a route's request stream does with one request: it
  throws, or returns \<^verbatim>\<open>undefined\<close> (after \<^verbatim>\<open>catch\<close>), or returns a stream: \<^verbatim>\<open>xs.of(x)\<close> or
  the merge of the streams selected from the sources. \<open>h_effects\<close> lists what it did to
  the bus during the call.
\<close>

datatype handled =
    Thrown js_error
  | ReturnedUndefined
  | ReturnedMerge "jsval list list"

record handling =
  h_result :: handled
  h_console :: "console_entry list"
  h_effects :: "effect list"

definition request_action :: "target \<Rightarrow> jsval \<Rightarrow> action" where
  "request_action t req =
     (let ty = (case t of ToFunction f \<Rightarrow> ''FUNCTION'' | ToAction n \<Rightarrow> n) in
      \<lparr>atype = ty, adata = js_get req ''body'', areq = req, a_reqId = js_get req ''id'',
       a_action = JStr ty\<rparr>)"

text \<open>
  \<^verbatim>\<open>Object.entries(this.sources).reduce(...)\<close>: the stream \<^verbatim>\<open>source.request(_reqId)\<close> of
  every source whose \<^verbatim>\<open>request\<close> property is a function, in the order of the sources.
  The first call that throws ends the reduction.
\<close>

fun selected_responses :: "sources \<Rightarrow> jsval \<Rightarrow> js_error + jsval list list" where
  "selected_responses [] rid = Inr []"
| "selected_responses (s # srcs) rid =
     (if REQUEST_SELECTOR_METHOD \<in> set (src_functions (snd s))
      then (case src_request (snd s) rid of
              Inl e \<Rightarrow> Inl e
            | Inr selected \<Rightarrow>
                (case selected_responses srcs rid of
                   Inl e \<Rightarrow> Inl e
                 | Inr acc \<Rightarrow> Inr (selected # acc)))
      else selected_responses srcs rid)"

text \<open>
  The access line. \<^verbatim>\<open>req.get ? req.get('host') : '0.0.0.0'\<close> raises a TypeError when
  \<^verbatim>\<open>req.get\<close> is truthy and not a function; when it is a function, \<open>host\<close> is what the
  call \<^verbatim>\<open>req.get('host')\<close> does: it throws or returns a value. The template literal then
  converts the ip, \<^verbatim>\<open>req.method\<close> and \<^verbatim>\<open>req.url\<close> to strings, in this order, and each
  conversion may raise.
\<close>

definition request_ip :: "(js_error + jsval) \<Rightarrow> jsval \<Rightarrow> js_error + jsval" where
  "request_ip host req =
     (let g = js_get req ''get'' in
      if truthy g
      then (if typeof g = ''function'' then host
            else Inl (TypeError ''req.get is not a function''))
      else Inr (JStr ''0.0.0.0''))"

definition access_line :: "(js_error + jsval) \<Rightarrow> jsval \<Rightarrow> js_error + console_entry" where
  "access_line host req =
     (case request_ip host req of
        Inl e \<Rightarrow> Inl e
      | Inr ip \<Rightarrow>
          (case to_string ip of
             Inl e \<Rightarrow> Inl e
           | Inr ip_s \<Rightarrow>
               (case to_string (js_get req ''method'') of
                  Inl e \<Rightarrow> Inl e
                | Inr method_s \<Rightarrow>
                    (case to_string (js_get req ''url'') of
                       Inl e \<Rightarrow> Inl e
                     | Inr url_s \<Rightarrow> Inr (AccessLog ip_s method_s url_s)))))"

text \<open>
  The mapped function. The id check stands before the \<^verbatim>\<open>try\<close>; everything after it is
  inside, and whatever is thrown there is caught, logged with \<^verbatim>\<open>console.error\<close>, and
  \<^verbatim>\<open>undefined\<close> is returned. On a route to an action name the action is pushed before the
  response streams are selected, so it stays pushed when a selection throws. The branch
  for \<^verbatim>\<open>ENVIRONMENT.DEBUG\<close> only sets a listener that logs, and is left out.
\<close>

definition route_handler :: "sources \<Rightarrow> jsval \<Rightarrow> route \<Rightarrow> (js_error + jsval) \<Rightarrow> jsval \<Rightarrow> handling" where
  "route_handler srcs currentState r host req =
     (if \<not> truthy req \<or> \<not> truthy (js_get req ''id'')
      then \<lparr>h_result = Thrown (Error (''No id found in request: '' @ routeString r)),
            h_console = [], h_effects = []\<rparr>
      else
        (let obj = request_action (r_target r) req in
         case access_line host req of
           Inl e \<Rightarrow> \<lparr>h_result = ReturnedUndefined, h_console = [ConsoleError e], h_effects = []\<rparr>
         | Inr line \<Rightarrow>
             (case r_target r of
                ToFunction f \<Rightarrow>
                  (case f currentState req of
                     Inl e \<Rightarrow> \<lparr>h_result = ReturnedUndefined,
                                h_console = [line, ConsoleError e], h_effects = []\<rparr>
                   | Inr res \<Rightarrow>
                       \<lparr>h_result = ReturnedMerge [[action_obj (obj\<lparr>adata := res\<rparr>)]],
                        h_console = [line], h_effects = []\<rparr>)
              | ToAction n \<Rightarrow>
                  (case selected_responses srcs (a_reqId obj) of
                     Inl e \<Rightarrow> \<lparr>h_result = ReturnedUndefined,
                                h_console = [line, ConsoleError e],
                                h_effects = [ShamefullySendNext obj]\<rparr>
                   | Inr responses \<Rightarrow>
                       \<lparr>h_result = ReturnedMerge responses, h_console = [line],
                        h_effects = [ShamefullySendNext obj]\<rparr>))))"





text \<open>
  Wiring. The \<^verbatim>\<open>request\<close> parameter is \<^verbatim>\<open>undefined\<close>, or not an object, or an object from
  method names to objects from routes to actions. The console line written for each
  registered route is left out.
\<close>

datatype request_param =
    RequestUndefined
  | RequestNonObject
  | RequestObject "(string \<times> (string \<times> route_action) list) list"

fun check_route :: "string \<Rightarrow> string \<times> route_action \<Rightarrow> js_error + route" where
  "check_route m (rt, ActionUndefined) =
     Inl (Error (''Action for '' @ [CHR 0x27] @ rt @ [CHR 0x27]
                 @ '' route in request object not specified''))"
| "check_route m (rt, ActionOther) =
     Inl (Error (''Invalid action for '' @ [CHR 0x27] @ rt @ [CHR 0x27]
                 @ '' route: expecting string or function''))"
| "check_route m (rt, ActionName n) = Inr \<lparr>r_method = m, r_route = rt, r_target = ToAction n\<rparr>"
| "check_route m (rt, ActionFunction f) = Inr \<lparr>r_method = m, r_route = rt, r_target = ToFunction f\<rparr>"

fun check_routes :: "string \<Rightarrow> (string \<times> route_action) list \<Rightarrow> js_error + route list" where
  "check_routes m [] = Inr []"
| "check_routes m (e # es) =
     (case check_route m e of
        Inl err \<Rightarrow> Inl err
      | Inr r \<Rightarrow> (case check_routes m es of Inl err \<Rightarrow> Inl err | Inr rs \<Rightarrow> Inr (r # rs)))"

text \<open>
  \<^verbatim>\<open>router$\<close> is \<^verbatim>\<open>this.sources[this.requestSourceName]\<close>; reading a method of a missing
  router is a TypeError.
\<close>

fun check_methods :: "source option \<Rightarrow> (string \<times> (string \<times> route_action) list) list
    \<Rightarrow> js_error + route list" where
  "check_methods router [] = Inr []"
| "check_methods router ((method, routes) # ms) =
     (case router of
        None \<Rightarrow> Inl (TypeError ''Cannot read properties of undefined'')
      | Some src \<Rightarrow>
          (if toLowerCase method \<notin> set (src_functions src)
           then Inl (Error ''Invalid method in request object:'')
           else (case check_routes (toLowerCase method) routes of
                   Inl err \<Rightarrow> Inl err
                 | Inr rs \<Rightarrow>
                     (case check_methods router ms of
                        Inl err \<Rightarrow> Inl err
                      | Inr rest \<Rightarrow> Inr (rs @ rest)))))"

text \<open>
  \<^verbatim>\<open>initResponse$\<close>. The result is \<^verbatim>\<open>this.response$\<close>: \<open>None\<close> for \<^verbatim>\<open>undefined\<close>, else the
  routes whose streams are merged. \<open>response_given\<close> is
  \<^verbatim>\<open>typeof this.response != 'undefined'\<close>.
\<close>

definition initResponse :: "sources \<Rightarrow> string \<Rightarrow> request_param \<Rightarrow> bool \<Rightarrow> js_error + route list option" where
  "initResponse srcs requestSourceName request response_given =
     (case request of
        RequestUndefined \<Rightarrow> Inr None
      | RequestNonObject \<Rightarrow> Inl (Error ''The request parameter must be an object'')
      | RequestObject methods \<Rightarrow>
          (case check_methods (map_of srcs requestSourceName) methods of
             Inl err \<Rightarrow> Inl err
           | Inr wrapped \<Rightarrow>
               (let response_s = Some wrapped in
                if response_given \<and> response_s = None
                then Inl (Error ''Cannot have a response parameter without a request parameter'')
                else Inr response_s)))"

section \<open>The response collector: \<^verbatim>\<open>initSendResponse$\<close>\<close>

text \<open>
  The argument of \<^verbatim>\<open>selectable.select\<close>: nothing, or action names (one name stands for
  the list holding it). A stream the response function can return: a selection of
  \<^verbatim>\<open>this.response$\<close>, or a stream of its own making.
\<close>

datatype sel_arg = SelectAll | SelectNames "string list"

datatype rstream = Selected sel_arg | OtherStream "jsval list"

text \<open>
  \<^verbatim>\<open>select\<close>. With \<^verbatim>\<open>this.response$\<close> undefined, \<^verbatim>\<open>select()\<close> returns \<^verbatim>\<open>undefined\<close> and
  \<^verbatim>\<open>select(names)\<close> raises a TypeError on \<^verbatim>\<open>this.response$.filter\<close>.
\<close>

fun select :: "route list option \<Rightarrow> sel_arg \<Rightarrow> js_error + rstream option" where
  "select response_s SelectAll =
     Inr (case response_s of None \<Rightarrow> None | Some rs \<Rightarrow> Some (Selected SelectAll))"
| "select response_s (SelectNames ns) =
     (case response_s of
        None \<Rightarrow> Inl (TypeError ''Cannot read properties of undefined'')
      | Some rs \<Rightarrow> Inr (Some (Selected (SelectNames ns))))"

text \<open>
  The \<^verbatim>\<open>response\<close> parameter: \<^verbatim>\<open>undefined\<close>, a value that is not a function, or a
  function of the selectable. The function may throw; it returns a value that is not
  an object, or an object from command names to streams (\<open>None\<close>: \<^verbatim>\<open>undefined\<close>).
\<close>

datatype response_out = OutNonObject | OutObject "(string \<times> rstream option) list"

datatype response_param =
    ResponseUndefined
  | ResponseNonFunction
  | ResponseFunction "(sel_arg \<Rightarrow> js_error + rstream option) \<Rightarrow> js_error + response_out"

fun check_commands :: "(string \<times> rstream option) list \<Rightarrow> js_error + (string \<times> rstream) list" where
  "check_commands [] = Inr []"
| "check_commands ((command, None) # cs) = Inl (TypeError ''Cannot read properties of undefined'')"
| "check_commands ((command, Some st) # cs) =
     (case check_commands cs of Inl e \<Rightarrow> Inl e | Inr rest \<Rightarrow> Inr ((command, st) # rest))"

text \<open>
  \<^verbatim>\<open>initSendResponse$\<close>. The result is \<^verbatim>\<open>this.sendResponse$\<close> as the list of the command
  streams merged into it (empty: \<^verbatim>\<open>xs.never()\<close>).
\<close>

definition initSendResponse :: "route list option \<Rightarrow> response_param \<Rightarrow> js_error + (string \<times> rstream) list" where
  "initSendResponse response_s response =
     (case response of
        ResponseNonFunction \<Rightarrow> Inl (Error ''The response parameter must be a function'')
      | ResponseUndefined \<Rightarrow> Inr []
      | ResponseFunction f \<Rightarrow>
          (case f (select response_s) of
             Inl e \<Rightarrow> Inl e
           | Inr OutNonObject \<Rightarrow> Inl (Error ''The response function must return an object'')
           | Inr (OutObject entries) \<Rightarrow> check_commands entries))"


section \<open>The constructor\<close>

text \<open>
  The \<^verbatim>\<open>intent\<close> parameter: \<^verbatim>\<open>undefined\<close>, another falsy value, a truthy value that is not
  a function, or a function of the sources. The function returns a stream of actions, or
  a map of event streams (given as the events of all its streams in order of arrival,
  each with the key of its stream), or \<^verbatim>\<open>null\<close>, or a value that is neither a stream nor
  an object.
\<close>

datatype intent_out =
    IntentStream "action list"
  | IntentMap "(string \<times> jsval) list"
  | IntentNull
  | IntentNonObject

datatype intent_param =
    IntentUndefined
  | IntentFalsy
  | IntentNonFunction
  | IntentFunction "sources \<Rightarrow> intent_out"

text \<open>
  \<^verbatim>\<open>this.action$\<close>: \<^verbatim>\<open>xs.never()\<close>, or the merge of \<^verbatim>\<open>wrapped$\<close> (the bootstrap action, then
  the actions of the intent) with \<^verbatim>\<open>hydrate$\<close>. The two branches are kept apart: how they
  interleave is a matter of time.
\<close>

datatype action_stream = NeverStream | MergeStream "action list" "action list"

definition plain_action :: "string \<Rightarrow> jsval \<Rightarrow> action" where
  "plain_action ty d =
     \<lparr>atype = ty, adata = d, areq = JUndefined, a_reqId = JUndefined, a_action = JUndefined\<rparr>"

definition initIntent :: "sources \<Rightarrow> intent_param \<Rightarrow> js_error + intent_out option" where
  "initIntent srcs intent =
     (case intent of
        IntentUndefined \<Rightarrow> Inr None
      | IntentFalsy \<Rightarrow> Inr None
      | IntentNonFunction \<Rightarrow> Inl (Error ''Intent must be a function'')
      | IntentFunction f \<Rightarrow>
          (case f srcs of
             IntentNonObject \<Rightarrow>
               Inl (Error ''Intent must return either an action$ stream or map of event streams'')
           | out \<Rightarrow> Inr (Some out)))"

definition hydrate :: "sources \<Rightarrow> string \<Rightarrow> action list" where
  "hydrate srcs requestSourceName =
     (case map_of srcs requestSourceName of
        None \<Rightarrow> []
      | Some src \<Rightarrow>
          (if ''select'' \<in> set (src_functions src)
           then map (plain_action HYDRATE_ACTION) (src_initial src) else []))"

definition initAction :: "sources \<Rightarrow> string \<Rightarrow> intent_out option \<Rightarrow> action_stream" where
  "initAction srcs requestSourceName intent_s =
     (case intent_s of
        None \<Rightarrow> NeverStream
      | Some IntentNull \<Rightarrow> NeverStream
      | Some IntentNonObject \<Rightarrow> NeverStream
      | Some (IntentStream runner) \<Rightarrow>
          MergeStream (plain_action BOOTSTRAP_ACTION JUndefined # runner)
            (hydrate srcs requestSourceName)
      | Some (IntentMap events) \<Rightarrow>
          MergeStream (plain_action BOOTSTRAP_ACTION JUndefined
                         # map (\<lambda>e. plain_action (fst e) (snd e)) events)
            (hydrate srcs requestSourceName))"

text \<open>
  A child factory is called with the sources; it throws, or returns the child's sinks:
  an object from sink names to streams, each given by what it emits.
\<close>

type_synonym child_sinks = "(string \<times> emission list) list"

type_synonym child_factory = "sources \<Rightarrow> js_error + child_sinks"

text \<open>
  \<^verbatim>\<open>initChildren$\<close> calls the factories in order. \<^verbatim>\<open>this.children$[name]\<close> is then, for a
  sink name other than the DOM one, the list of \<^verbatim>\<open>child$[name]\<close> over the children
  (\<open>None\<close> for a child without that sink).
\<close>

fun initChildren :: "sources \<Rightarrow> (string \<times> child_factory) list
    \<Rightarrow> js_error + (string \<times> child_sinks) list" where
  "initChildren srcs [] = Inr []"
| "initChildren srcs ((childName, childFactory) # rest) =
     (case childFactory srcs of
        Inl e \<Rightarrow> Inl e
      | Inr child_s \<Rightarrow>
          (case initChildren srcs rest of
             Inl e \<Rightarrow> Inl e
           | Inr more_children \<Rightarrow> Inr ((childName, child_s) # more_children)))"

definition children_of :: "(string \<times> child_sinks) list \<Rightarrow> string \<Rightarrow> emission list option list" where
  "children_of children_s name = map (\<lambda>child. map_of (snd child) name) children_s"

text \<open>
  A sink of the component, as \<^verbatim>\<open>initSinks\<close> builds it:
  \<^verbatim>\<open>xs.merge(this.model$[name] || xs.never(), ...this.children$[name])\<close> (for the state
  sink also the state stream filtered to nothing), or \<^verbatim>\<open>this.vdom$\<close> (with or without a
  view function), or \<^verbatim>\<open>xs.merge(this.sendResponse$, this.sinks[requestSourceName])\<close>.
\<close>

datatype sink =
    ModelSink string "emission list option list"
  | ViewSink bool
  | ResponseSink "(string \<times> rstream) list" "sink option"

text \<open>\<^verbatim>\<open>acc[name] = value\<close>: an existing key takes the value, a new key goes to the end.\<close>

fun assign :: "string \<Rightarrow> 'a \<Rightarrow> (string \<times> 'a) list \<Rightarrow> (string \<times> 'a) list" where
  "assign k v [] = [(k, v)]"
| "assign k v ((k', v') # ps) = (if k = k' then (k, v) # ps else (k', v') # assign k v ps)"

text \<open>
  The reduction over \<^verbatim>\<open>this.sourceNames\<close>. The DOM name is skipped. For the state name,
  \<^verbatim>\<open>this.sources[this.stateSourceName].stream.filter(...)\<close> is a TypeError when that
  source has no stream.
\<close>

fun own_sinks :: "sources \<Rightarrow> string \<Rightarrow> string \<Rightarrow> (string \<times> child_sinks) list
    \<Rightarrow> string list \<Rightarrow> (string \<times> sink) list \<Rightarrow> js_error + (string \<times> sink) list" where
  "own_sinks srcs DOMSourceName stateSourceName children_s [] acc = Inr acc"
| "own_sinks srcs DOMSourceName stateSourceName children_s (name # names) acc =
     (if name = DOMSourceName
      then own_sinks srcs DOMSourceName stateSourceName children_s names acc
      else if name = stateSourceName
      then (case map_of srcs stateSourceName of
              None \<Rightarrow> Inl (TypeError ''Cannot read properties of undefined'')
            | Some st \<Rightarrow>
                (if src_has_stream st
                 then own_sinks srcs DOMSourceName stateSourceName children_s names
                        (assign name (ModelSink name (children_of children_s name)) acc)
                 else Inl (TypeError ''Cannot read properties of undefined'')))
      else own_sinks srcs DOMSourceName stateSourceName children_s names
             (assign name (ModelSink name (children_of children_s name)) acc))"

definition initSinks :: "sources \<Rightarrow> string \<Rightarrow> string \<Rightarrow> string \<Rightarrow> (string \<times> child_sinks) list
    \<Rightarrow> bool \<Rightarrow> (string \<times> rstream) list \<Rightarrow> js_error + (string \<times> sink) list" where
  "initSinks srcs DOMSourceName stateSourceName requestSourceName children_s has_view sendResponse_s =
     (case own_sinks srcs DOMSourceName stateSourceName children_s (map fst srcs) [] of
        Inl e \<Rightarrow> Inl e
      | Inr acc \<Rightarrow>
          (let with_dom = assign DOMSourceName (ViewSink has_view) acc in
           Inr (assign requestSourceName
                  (ResponseSink sendResponse_s (map_of with_dom requestSourceName)) with_dom)))"

text \<open>
  The options of \<^verbatim>\<open>new Component({...})\<close>, with the defaults of the destructuring already
  filled in. \<open>o_sources = None\<close> stands for sources that are missing or not an object;
  \<open>o_view\<close> says whether \<^verbatim>\<open>view\<close> is a function.
\<close>

record opts =
  o_name :: string
  o_sources :: "sources option"
  o_intent :: intent_param
  o_request :: request_param
  o_model :: "model_table option"
  o_response :: response_param
  o_view :: bool
  o_children :: "(string \<times> child_factory) list"
  o_initialState :: jsval
  o_DOMSourceName :: string
  o_stateSourceName :: string
  o_requestSourceName :: string

record component =
  c_name :: string
  c_intent :: intent_param
  c_model :: "model_table option"
  c_initialState :: jsval
  c_currentState :: jsval
  c_stateSourceName :: string
  c_action_s :: action_stream
  c_response_s :: "route list option"
  c_reducers :: "(string \<times> registration list) list"
  c_sendResponse_s :: "(string \<times> rstream) list"
  c_children_s :: "(string \<times> child_sinks) list"
  c_sinks :: "(string \<times> sink) list"

text \<open>
  What the constructor substitutes when the process-wide flag \<^verbatim>\<open>IS_ROOT_COMPONENT\<close> is
  set and neither intent nor model is given.
\<close>

definition noop_intent :: intent_param where
  "noop_intent = IntentFunction (\<lambda>srcs. IntentMap [])"

definition noop_model :: model_table where
  "noop_model = [(''__NOOP_ACTION__'', SFunction (\<lambda>state d req. (state, [])))]"

fun response_given :: "response_param \<Rightarrow> bool" where
  "response_given ResponseUndefined = False"
| "response_given r = True"

fun intent_undefined :: "intent_param \<Rightarrow> bool" where
  "intent_undefined IntentUndefined = True"
| "intent_undefined i = False"

text \<open>
  \<^verbatim>\<open>constructor\<close>: from the flag and the options to the component or the error thrown,
  and the flag afterwards. The flag is cleared once the sources check has passed,
  before the \<^verbatim>\<open>init\<close> methods run. \<^verbatim>\<open>initVdom$\<close> has no \<^verbatim>\<open>throw\<close> of its own; what the view
  renders is not modelled.
\<close>

definition initModel :: "string \<Rightarrow> string \<Rightarrow> model_table option
    \<Rightarrow> js_error + (string \<times> registration list) list" where
  "initModel name stateSourceName model =
     (case model of
        None \<Rightarrow> Inr []
      | Some m \<Rightarrow> model_reducers name stateSourceName m [])"

definition init_all :: "sources \<Rightarrow> opts \<Rightarrow> intent_param \<Rightarrow> model_table option \<Rightarrow> jsval \<Rightarrow> jsval
    \<Rightarrow> js_error + component" where
  "init_all srcs opt intent model initialState currentState =
     (case initIntent srcs intent of
        Inl e \<Rightarrow> Inl e
      | Inr intent_s \<Rightarrow>
          (case initResponse srcs (o_requestSourceName opt) (o_request opt)
                  (response_given (o_response opt)) of
             Inl e \<Rightarrow> Inl e
           | Inr response_s \<Rightarrow>
               (case initModel (o_name opt) (o_stateSourceName opt)
                       (fst (initState (o_stateSourceName opt) model)) of
                  Inl e \<Rightarrow> Inl e
                | Inr reducers \<Rightarrow>
                    (case initSendResponse response_s (o_response opt) of
                       Inl e \<Rightarrow> Inl e
                     | Inr commands \<Rightarrow>
                         (case initChildren srcs (o_children opt) of
                            Inl e \<Rightarrow> Inl e
                          | Inr children_s \<Rightarrow>
                              (case initSinks srcs (o_DOMSourceName opt) (o_stateSourceName opt)
                                      (o_requestSourceName opt) children_s (o_view opt) commands of
                                 Inl e \<Rightarrow> Inl e
                               | Inr sinks \<Rightarrow>
                                   Inr \<lparr>c_name = o_name opt, c_intent = intent,
                                        c_model = fst (initState (o_stateSourceName opt) model),
                                        c_initialState = initialState,
                                        c_currentState = currentState,
                                        c_stateSourceName = o_stateSourceName opt,
                                        c_action_s =
                                          initAction srcs (o_requestSourceName opt) intent_s,
                                        c_response_s = response_s, c_reducers = reducers,
                                        c_sendResponse_s = commands,
                                        c_children_s = children_s, c_sinks = sinks\<rparr>))))))"

definition constructor :: "bool \<Rightarrow> opts \<Rightarrow> (js_error + component) \<times> bool" where
  "constructor IS_ROOT_COMPONENT opt =
     (case o_sources opt of
        None \<Rightarrow> (Inl (Error ''Missing or invalid sources''), IS_ROOT_COMPONENT)
      | Some srcs \<Rightarrow>
          (let currentState =
                 (case map_of srcs (o_stateSourceName opt) of
                    None \<Rightarrow> JUndefined
                  | Some st \<Rightarrow>
                      (if src_has_stream st then js_or (o_initialState opt) (JObj [])
                       else JUndefined))
           in if IS_ROOT_COMPONENT \<and> intent_undefined (o_intent opt) \<and> o_model opt = None
              then (init_all srcs opt noop_intent (Some noop_model)
                      (js_or (o_initialState opt) (JBool True)) currentState, False)
              else (init_all srcs opt (o_intent opt) (o_model opt) (o_initialState opt) currentState,
                    False)))"

text \<open>Constructing several components one after the other in one process.\<close>

fun construct_all :: "bool \<Rightarrow> opts list \<Rightarrow> (js_error + component) list \<times> bool" where
  "construct_all flag [] = ([], flag)"
| "construct_all flag (opt # rest_opts) =
     (case constructor flag opt of
        (res, flag') \<Rightarrow> (case construct_all flag' rest_opts of (rest, flag'') \<Rightarrow> (res # rest, flag'')))"

section \<open>The event loop around one invocation\<close>

text \<open>
  What the rest of the run can observe of the bus: the actions pushed so far into the
  action stream with \<^verbatim>\<open>shamefullySendNext\<close>, in order, and the timers set and not yet
  fired, each with its delay and the effects of its callback. JavaScript runs a callback
  to completion; a timer's callback runs in a later turn, after the code that set it
  has returned.
\<close>

record world =
  w_bus :: "action list"
  w_pending :: "(nat \<times> effect list) list"

fun perform :: "effect \<Rightarrow> world \<Rightarrow> world" where
  "perform (ShamefullySendNext a) w = w\<lparr>w_bus := w_bus w @ [a]\<rparr>"
| "perform (SetTimeout ms callback) w = w\<lparr>w_pending := w_pending w @ [(ms, callback)]\<rparr>"

definition perform_all :: "effect list \<Rightarrow> world \<Rightarrow> world" where
  "perform_all es w = fold perform es w"

text \<open>An effect reducer is invoked for an action: its result, and the world after it.\<close>

definition invoke_effect :: "jsval \<Rightarrow> string \<Rightarrow> reducer_fn \<Rightarrow> action \<Rightarrow> world \<Rightarrow> (js_error + jsval) \<times> world" where
  "invoke_effect currentState name reducer a w =
     (let inv = effect_reducer currentState name reducer a in
      (outcome inv, perform_all (timers inv) w))"

text \<open>
  The state driver applies the function emitted for an action to the state: the reducer
  runs, with its dispatches, and then its result is compared with the sentinel. A
  comparison that raises leaves the function as a TypeError.
\<close>

definition invoke_state :: "string \<Rightarrow> reducer_fn \<Rightarrow> action \<Rightarrow> jsval \<Rightarrow> world
    \<Rightarrow> (js_error + jsval) \<times> world" where
  "invoke_state name reducer a state w =
     (case state_reducer name reducer a state of
        (state', es) \<Rightarrow>
          (if comparison_raises (fst (reducer state (action_payload a) (areq a)))
           then Inl (TypeError ''Cannot convert a Symbol value to a string'')
           else Inr state',
           perform_all es w))"

text \<open>A request arrives on a route: the handler runs, with its effects on the bus.\<close>

definition handle_request :: "sources \<Rightarrow> jsval \<Rightarrow> route \<Rightarrow> (js_error + jsval) \<Rightarrow> jsval \<Rightarrow> world
    \<Rightarrow> handling \<times> world" where
  "handle_request srcs currentState r host req w =
     (let h = route_handler srcs currentState r host req in
      (h, perform_all (h_effects h) w))"

text \<open>
  A later turn: the oldest pending timer fires (the dispatch timers all have the same
  delay) and its callback runs.
\<close>

definition fire :: "world \<Rightarrow> world" where
  "fire w =
     (case w_pending w of
        [] \<Rightarrow> w
      | t # ts \<Rightarrow> perform_all (snd t) (w\<lparr>w_pending := ts\<rparr>))"

text \<open>
  Reading one sink of a constructed component, for the actions delivered on its bus.
  The component has no such sink, or what the sink emits is not determined by the
  component alone (a child or the response collector emits into the merge, a child's
  stream is missing, or the view renders), or it is the stream of the model for that
  sink: the other streams of the merge are \<open>silent\<close>.
\<close>

datatype sink_result = NoSuchSink | Undetermined | Emits "emission list" "js_error option"

fun silent :: "emission list option \<Rightarrow> bool" where
  "silent (Some []) = True"
| "silent child = False"

fun sink_emits :: "component \<Rightarrow> sink \<Rightarrow> delivery list \<Rightarrow> sink_result" where
  "sink_emits c (ModelSink name children_s) action_s =
     (if list_all silent children_s
      then (case model_sink (c_stateSourceName c) (c_initialState c) (c_currentState c)
                   (c_reducers c) name action_s of
              (es, err) \<Rightarrow> Emits es err)
      else Undetermined)"
| "sink_emits c (ViewSink has_view) action_s = Undetermined"
| "sink_emits c (ResponseSink commands None) action_s = Undetermined"
| "sink_emits c (ResponseSink commands (Some s)) action_s =
     (if List.null commands then sink_emits c s action_s else Undetermined)"

definition sink_stream :: "component \<Rightarrow> string \<Rightarrow> delivery list \<Rightarrow> sink_result" where
  "sink_stream c sink_name action_s =
     (case map_of (c_sinks c) sink_name of
        None \<Rightarrow> NoSuchSink
      | Some s \<Rightarrow> sink_emits c s action_s)"

text \<open>
  The states a constructed component goes through, from the state \<open>s\<close> the driver starts
  with: the fold of what its state sink emits. \<open>None\<close>: there is no state sink, or it is
  not determined.
\<close>

definition state_values :: "js_error + component \<Rightarrow> delivery list \<Rightarrow> jsval \<Rightarrow> js_error + jsval list option" where
  "state_values res action_s s =
     (case res of
        Inl e \<Rightarrow> Inl e
      | Inr c \<Rightarrow>
          Inr (case sink_stream c (c_stateSourceName c) action_s of
                 Emits es err \<Rightarrow> Some (state_seq es s)
               | NoSuchSink \<Rightarrow> None
               | Undetermined \<Rightarrow> None))"

section \<open>Concrete inputs\<close>

text \<open>Reducers: one that returns a given value, one that also dispatches.\<close>

definition returning :: "jsval \<Rightarrow> reducer_fn" where
  "returning v = (\<lambda>state d req. (v, []))"

definition dispatching :: "jsval \<Rightarrow> string \<Rightarrow> jsval \<Rightarrow> reducer_fn" where
  "dispatching v ty d' = (\<lambda>state d req. (v, [(ty, d')]))"

text \<open>
  Requests with and without an id (neither has a \<^verbatim>\<open>get\<close>, so \<open>no_host\<close> is never
  called), and a route to the action \<^verbatim>\<open>SAVE\<close>.
\<close>

definition no_host :: "js_error + jsval" where
  "no_host = Inl (TypeError ''req.get is not a function'')"

definition req_r1 :: jsval where
  "req_r1 = JObj [(''id'', JStr ''r1''), (''method'', JStr ''GET''), (''url'', JStr ''/x''),
                  (''body'', JObj [(''n'', JNum 1)])]"

definition req_no_id :: jsval where
  "req_no_id = JObj [(''method'', JStr ''GET''), (''url'', JStr ''/x'')]"

text \<open>A request with an id whose \<^verbatim>\<open>method\<close> is a symbol.\<close>

definition req_symbol :: jsval where
  "req_symbol = JObj [(''id'', JStr ''r2''), (''method'', JSymbol ''m''), (''url'', JStr ''/x'')]"

definition save_route :: route where
  "save_route = \<lparr>r_method = ''get'', r_route = ''/x'', r_target = ToAction ''SAVE''\<rparr>"


definition save_action :: action where
  "save_action = request_action (ToAction ''SAVE'') req_r1"

text \<open>Sources: a state source with a stream, and a router with \<^verbatim>\<open>get\<close>.\<close>

definition state_source :: source where
  "state_source = \<lparr>src_has_stream = True, src_functions = [], src_request = (\<lambda>i. Inr []),
                    src_initial = []\<rparr>"

definition http_source :: source where
  "http_source = \<lparr>src_has_stream = False, src_functions = [''get'', ''post'', ''select''],
                   src_request = (\<lambda>i. Inr []), src_initial = []\<rparr>"

definition two_sources :: sources where
  "two_sources = [(''STATE'', state_source), (''HTTP'', http_source)]"


text \<open>
  Options: nothing but sources; a response function and no request; a model with one
  action and an initial state.
\<close>

definition bare_opts :: opts where
  "bare_opts =
     \<lparr>o_name = ''bare'', o_sources = Some two_sources, o_intent = IntentUndefined,
      o_request = RequestUndefined, o_model = None, o_response = ResponseUndefined,
      o_view = False, o_children = [], o_initialState = JUndefined,
      o_DOMSourceName = ''DOM'', o_stateSourceName = ''STATE'',
      o_requestSourceName = ''HTTP''\<rparr>"

definition response_only_opts :: opts where
  "response_only_opts = bare_opts\<lparr>o_response := ResponseFunction (\<lambda>sel. Inr (OutObject []))\<rparr>"

definition counter_opts :: "jsval \<Rightarrow> opts" where
  "counter_opts s0 =
     bare_opts\<lparr>o_model := Some [(''KEEP'', SFunction (\<lambda>state d req. (state, [])))],
               o_initialState := s0\<rparr>"

text \<open>The reducers of a state sink: \<^verbatim>\<open>SAVE\<close> aborts, \<^verbatim>\<open>SET\<close> sets the state to 2.\<close>

definition aborting_table :: "(string \<times> registration list) list" where
  "aborting_table =
     [(''STATE'', [(''SAVE'', RFunction (returning ABORT)),
                   (''SET'', RFunction (returning (JNum 2)))])]"

section \<open>Properties of values\<close>



lemma request_id_of_save_action: "request_id_of save_action = JStr ''r1''"
  by (simp add: request_id_of_def save_action_def request_action_def req_r1_def js_or_def Let_def)


section \<open>The merged stream of one sink\<close>

text \<open>With a single registration the merged stream is the stream \<open>makeOnAction\<close> makes.\<close>

lemma merged_on_single:
  "merged_on isStateSink [(name, reducer)] action_s = makeOnAction action_s isStateSink name reducer"
proof (induction action_s)
  case Nil
  then show ?case by (simp add: merged_on_def makeOnAction_def)
next
  case (Cons d ds)
  then show ?case
    by (simp add: merged_on_def makeOnAction_def split: sum.splits option.splits)
qed

section \<open>The state sink never fails\<close>





section \<open>Return values of effect reducers\<close>

text \<open>
  C10. An effect reducer that returns \<^verbatim>\<open>null\<close>: \<^verbatim>\<open>typeof null\<close> is \<^verbatim>\<open>object\<close>, so the value
  emitted is the object holding only the two stamps \<^verbatim>\<open>_reqId\<close> and \<^verbatim>\<open>_action\<close>; no error
  is raised and no warning is written.
\<close>

theorem null_result_is_stamped:
  assumes "fst (reducer currentState (action_payload a) (areq a)) = JNull"
  shows "typeof JNull = ''object''
    \<and> effect_reducer currentState name reducer a =
        \<lparr>outcome = Inr (JObj [(''_reqId'', request_id_of a), (''_action'', JStr name)]),
         warned = [],
         timers = map (next_call a name) (snd (reducer currentState (action_payload a) (areq a)))\<rparr>
    \<and> on_action False currentState name (RFunction reducer) a =
        Inr (Some (Value (JObj [(''_reqId'', request_id_of a), (''_action'', JStr name)])))"
proof -
  obtain calls where r: "reducer currentState (action_payload a) (areq a) = (JNull, calls)"
    using assms by (cases "reducer currentState (action_payload a) (areq a)") simp
  have e: "effect_reducer currentState name reducer a =
        \<lparr>outcome = Inr (JObj [(''_reqId'', request_id_of a), (''_action'', JStr name)]),
         warned = [], timers = map (next_call a name) calls\<rparr>"
    by (simp add: effect_reducer_def r)
  show ?thesis using e r by simp
qed

text \<open>The same at the action made from the request \<^verbatim>\<open>r1\<close>.\<close>

theorem null_result_is_stamped_witness:
  "fst (returning JNull JUndefined (action_payload save_action) (areq save_action)) = JNull
   \<and> on_action False JUndefined ''SAVE'' (RFunction (returning JNull)) save_action =
       Inr (Some (Value (JObj [(''_reqId'', JStr ''r1''), (''_action'', JStr ''SAVE'')])))"
proof -
  have h: "fst (returning JNull JUndefined (action_payload save_action) (areq save_action)) = JNull"
    by (simp add: returning_def)
  show ?thesis
    using null_result_is_stamped [where reducer = "returning JNull" and currentState = JUndefined
        and a = save_action and name = "''SAVE''"] h request_id_of_save_action by simp
qed




section \<open>The sentinel\<close>











section \<open>State reducers that abort\<close>

lemma eq_ABORT_sentinel: "eq_ABORT ABORT"
  by (simp add: ABORT_def)

lemma state_reducer_not_ABORT:
  "s \<noteq> ABORT \<Longrightarrow> fst (state_reducer name r a s) \<noteq> ABORT"
  using eq_ABORT_sentinel by (auto simp: state_reducer_def split: prod.splits if_splits)

lemma state_reducer_ABORT:
  assumes "fst (reducer state (action_payload a) (areq a)) = ABORT"
  shows "fst (state_reducer name reducer a state) = state"
proof -
  obtain calls where "reducer state (action_payload a) (areq a) = (ABORT, calls)"
    using assms by (cases "reducer state (action_payload a) (areq a)") simp
  then show ?thesis by (simp add: state_reducer_def ABORT_def)
qed

lemma on_action_state_emission:
  "on_action True cur name r a = Inr (Some (Reducer f))
   \<Longrightarrow> \<exists>fn. r = RFunction fn \<and> f = state_reducer name fn a"
  by (cases r) auto

lemma emit_all_member:
  "y \<in> set (fst (emit_all g xs)) \<Longrightarrow> \<exists>x \<in> set xs. g x = Inr (Some y)"
proof (induction xs)
  case Nil
  then show ?case by simp
next
  case (Cons x xs)
  show ?case
  proof (cases "g x")
    case (Inl e)
    then show ?thesis using Cons.prems by simp
  next
    case (Inr z0)
    show ?thesis
    proof (cases z0)
      case None
      then show ?thesis using Inr Cons by simp
    next
      case (Some z)
      then have "y = z \<or> y \<in> set (fst (emit_all g xs))"
        using Inr Cons.prems by (simp split: prod.splits)
      then show ?thesis using Inr Some Cons.IH by auto
    qed
  qed
qed

lemma merged_on_state_member:
  assumes "Reducer f \<in> set (fst (merged_on True regs src))"
  shows "\<exists>name fn a. f = state_reducer name fn a"
proof -
  obtain x where "(case x of (d, r) \<Rightarrow> on_action True (fst d) (fst r) (snd r) (snd d)) = Inr (Some (Reducer f))"
    using emit_all_member [OF assms [unfolded merged_on_def]] by blast
  then have "on_action True (fst (fst x)) (fst (snd x)) (snd (snd x)) (snd (fst x))
      = Inr (Some (Reducer f))"
    by (simp add: case_prod_beta)
  from on_action_state_emission [OF this] show ?thesis by blast
qed

lemma state_seq_never_ABORT:
  "(\<And>f. Reducer f \<in> set es \<Longrightarrow> \<exists>name fn a. f = state_reducer name fn a)
   \<Longrightarrow> s \<noteq> ABORT \<Longrightarrow> x \<in> set (state_seq es s) \<Longrightarrow> x \<noteq> ABORT"
proof (induction es arbitrary: s)
  case Nil
  then show ?case by simp
next
  case (Cons e es)
  show ?case
  proof (cases e)
    case (Value v)
    then show ?thesis using Cons.prems by simp
  next
    case (Reducer f)
    then have "Reducer f \<in> set (e # es)" by simp
    from Cons.prems(1) [OF this]
    obtain name fn a where f: "f = state_reducer name fn a" by blast
    have n: "fst (f s) \<noteq> ABORT" using f Cons.prems(2) state_reducer_not_ABORT by simp
    have "x = fst (f s) \<or> x \<in> set (state_seq es (fst (f s)))"
      using Cons.prems(3) Reducer by simp
    then show ?thesis
      using n Cons.IH [of "fst (f s)"] Cons.prems(1) by auto
  qed
qed

lemma state_seq_append:
  assumes "fst (f (last (s # state_seq es s))) = fst (g (last (s # state_seq es s)))"
  shows "state_seq (es @ Reducer f # es') s = state_seq (es @ Reducer g # es') s"
  using assms
proof (induction es arbitrary: s)
  case Nil
  then show ?case by simp
next
  case (Cons e es)
  show ?case
  proof (cases e)
    case (Value v)
    then show ?thesis by simp
  next
    case (Reducer h)
    have "last (s # state_seq (e # es) s) = last (fst (h s) # state_seq es (fst (h s)))"
      using Reducer by simp
    then show ?thesis using Cons Reducer by simp
  qed
qed

text \<open>
  C2. A state reducer that returns \<^verbatim>\<open>ABORT\<close> hands the state on as it was. Started from a
  state that is not the sentinel (the driver starts from \<^verbatim>\<open>undefined\<close>), the states that
  the state sink of a model produces never contain the sentinel. And the sequence of
  states is the one obtained when the aborting action's function is replaced by the
  identity, whatever was emitted before (\<open>es\<close>) and after (\<open>es'\<close>).
\<close>

theorem abort_keeps_state:
  "(fst (reducer state (action_payload a) (areq a)) = ABORT
      \<longrightarrow> fst (state_reducer name reducer a state) = state)
   \<and> (s0 \<noteq> ABORT
      \<longrightarrow> ABORT \<notin> set (state_seq (fst (model_sink stateSourceName initialState currentState
                                         reducers stateSourceName action_s)) s0))
   \<and> (fst (reducer (last (s0 # state_seq es s0)) (action_payload a) (areq a)) = ABORT
      \<longrightarrow> state_seq (es @ Reducer (state_reducer name reducer a) # es') s0
          = state_seq (es @ Reducer (\<lambda>s. (s, [])) # es') s0)"
proof -
  have m: "Reducer f \<in> set (fst (model_sink stateSourceName initialState currentState
                                  reducers stateSourceName action_s))
           \<Longrightarrow> \<exists>name fn a. f = state_reducer name fn a" for f
    by (auto simp: model_sink_def split: option.splits dest: merged_on_state_member)
  have 2: "s0 \<noteq> ABORT \<Longrightarrow> ABORT \<notin> set (state_seq (fst (model_sink stateSourceName initialState
             currentState reducers stateSourceName action_s)) s0)"
    using state_seq_never_ABORT [OF m, where s = s0 and x = ABORT] by auto
  have 3: "fst (reducer (last (s0 # state_seq es s0)) (action_payload a) (areq a)) = ABORT
      \<Longrightarrow> state_seq (es @ Reducer (state_reducer name reducer a) # es') s0
          = state_seq (es @ Reducer (\<lambda>s. (s, [])) # es') s0"
    by (rule state_seq_append) (simp add: state_reducer_ABORT)
  show ?thesis using state_reducer_ABORT 2 3 by blast
qed

text \<open>With \<^verbatim>\<open>SET\<close> then \<^verbatim>\<open>SAVE\<close> delivered: the states are 2 and 2 again.\<close>

theorem abort_keeps_state_witness:
  "fst (returning ABORT (JNum 2) (action_payload save_action) (areq save_action)) = ABORT
   \<and> fst (state_reducer ''SAVE'' (returning ABORT) save_action (JNum 2)) = JNum 2
   \<and> JUndefined \<noteq> ABORT
   \<and> ABORT \<notin> set (state_seq (fst (model_sink ''STATE'' JUndefined JUndefined aborting_table ''STATE''
         [(JUndefined, plain_action ''SET'' JUndefined), (JUndefined, save_action)])) JUndefined)
   \<and> state_seq ([Reducer (state_reducer ''SET'' (returning (JNum 2)) (plain_action ''SET'' JUndefined))]
                 @ Reducer (state_reducer ''SAVE'' (returning ABORT) save_action) # []) JUndefined
     = [JNum 2, JNum 2]"
proof -
  have h1: "fst (returning ABORT s (action_payload save_action) (areq save_action)) = ABORT" for s
    by (simp add: returning_def)
  have h2: "JUndefined \<noteq> ABORT" by (simp add: ABORT_def)
  note t = abort_keeps_state [where reducer = "returning ABORT" and state = "JNum 2"
      and a = save_action and name = "''SAVE''" and ?s0.0 = JUndefined
      and stateSourceName = "''STATE''" and initialState = JUndefined and currentState = JUndefined
      and reducers = aborting_table
      and action_s = "[(JUndefined, plain_action ''SET'' JUndefined), (JUndefined, save_action)]"
      and es = "[Reducer (state_reducer ''SET'' (returning (JNum 2)) (plain_action ''SET'' JUndefined))]"
      and es' = "[]"]
  have s: "state_seq ([Reducer (state_reducer ''SET'' (returning (JNum 2)) (plain_action ''SET'' JUndefined))]
                 @ Reducer (\<lambda>s. (s, [])) # []) JUndefined = [JNum 2, JNum 2]"
    by (simp add: state_reducer_def returning_def)
  show ?thesis using t h1 h2 s by simp
qed

section \<open>The first state\<close>

lemma map_of_add_reducer_same:
  "map_of (add_reducer sink r acc) sink =
     Some ((case map_of acc sink of None \<Rightarrow> [] | Some rs \<Rightarrow> rs) @ [r])"
  by (induction acc) auto

lemma map_of_add_reducer_other:
  "s \<noteq> sink \<Longrightarrow> map_of (add_reducer sink r acc) s = map_of acc s"
  by (induction acc) auto

lemma add_reducer_names:
  assumes "map_of (add_reducer sink (act, r) acc) s = Some regs" and "x \<in> set regs"
  shows "fst x = act \<or> (\<exists>old. map_of acc s = Some old \<and> x \<in> set old)"
proof (cases "s = sink")
  case True
  have regs: "regs = (case map_of acc sink of None \<Rightarrow> [] | Some rs \<Rightarrow> rs) @ [(act, r)]"
    using assms(1) by (simp add: True map_of_add_reducer_same)
  show ?thesis
  proof (cases "map_of acc sink")
    case None
    then show ?thesis using regs assms(2) by simp
  next
    case (Some old)
    then have "x = (act, r) \<or> x \<in> set old" using regs assms(2) by simp
    then show ?thesis using Some True by auto
  qed
next
  case False
  then show ?thesis using assms by (simp add: map_of_add_reducer_other)
qed

lemma fold_add_reducer_names:
  assumes "map_of (fold (\<lambda>sr. add_reducer (fst sr) (act, snd sr)) ss acc) s = Some regs"
    and "x \<in> set regs"
  shows "fst x = act \<or> (\<exists>old. map_of acc s = Some old \<and> x \<in> set old)"
  using assms
proof (induction ss arbitrary: acc)
  case Nil
  then show ?case by simp
next
  case (Cons sr ss)
  have "map_of (fold (\<lambda>sr. add_reducer (fst sr) (act, snd sr)) ss
                 (add_reducer (fst sr) (act, snd sr) acc)) s = Some regs"
    using Cons.prems(1) by simp
  from Cons.IH [OF this Cons.prems(2)]
  show ?case
  proof
    assume "fst x = act"
    then show ?thesis by simp
  next
    assume "\<exists>old. map_of (add_reducer (fst sr) (act, snd sr) acc) s = Some old \<and> x \<in> set old"
    then obtain old where "map_of (add_reducer (fst sr) (act, snd sr) acc) s = Some old" "x \<in> set old"
      by blast
    then show ?thesis by (rule add_reducer_names)
  qed
qed

lemma model_reducers_names:
  assumes "model_reducers name st m acc = Inr res" and "map_of res s = Some regs" and "x \<in> set regs"
  shows "fst x \<in> fst ` set m \<or> (\<exists>old. map_of acc s = Some old \<and> x \<in> set old)"
  using assms(1)
proof (induction m arbitrary: acc)
  case Nil
  then show ?case using assms(2,3) by simp
next
  case (Cons e m)
  obtain act sinks where e: "e = (act, sinks)" by (cases e)
  show ?case
  proof (cases "entry_sinks name st act sinks")
    case (Inl err)
    then show ?thesis using Cons.prems e by simp
  next
    case (Inr ss)
    then have "model_reducers name st m (fold (\<lambda>sr. add_reducer (fst sr) (act, snd sr)) ss acc) = Inr res"
      using Cons.prems e by simp
    from Cons.IH [OF this]
    show ?thesis
    proof
      assume "fst x \<in> fst ` set m"
      then show ?thesis by simp
    next
      assume "\<exists>old. map_of (fold (\<lambda>sr. add_reducer (fst sr) (act, snd sr)) ss acc) s = Some old \<and> x \<in> set old"
      then obtain old where "map_of (fold (\<lambda>sr. add_reducer (fst sr) (act, snd sr)) ss acc) s = Some old"
        "x \<in> set old" by blast
      from fold_add_reducer_names [OF this]
      show ?thesis using e by auto
    qed
  qed
qed

lemma model_reducers_append:
  "model_reducers name st (m @ m') acc =
     (case model_reducers name st m acc of Inl e \<Rightarrow> Inl e | Inr acc' \<Rightarrow> model_reducers name st m' acc')"
  by (induction m arbitrary: acc) (auto split: sum.splits)

text \<open>the state sink of a model that got the default handler\<close>

lemma default_initialize_registered:
  assumes "model_reducers name st (m @ [(INITIALIZE_ACTION, SObject [(st, RFunction default_initialize)])]) [] = Inr res"
    and "map_of m INITIALIZE_ACTION = None"
  shows "\<exists>regs. map_of res st = Some (regs @ [(INITIALIZE_ACTION, RFunction default_initialize)])
           \<and> filter (\<lambda>r. INITIALIZE_ACTION = fst r) regs = []"
proof -
  obtain acc where acc: "model_reducers name st m [] = Inr acc"
    and res: "res = add_reducer st (INITIALIZE_ACTION, RFunction default_initialize) acc"
    using assms(1) by (auto simp: model_reducers_append split: sum.splits)
  define regs where "regs = (case map_of acc st of None \<Rightarrow> [] | Some rs \<Rightarrow> rs)"
  have 1: "map_of res st = Some (regs @ [(INITIALIZE_ACTION, RFunction default_initialize)])"
    by (simp add: res regs_def map_of_add_reducer_same)
  have "fst x \<noteq> INITIALIZE_ACTION" if "x \<in> set regs" for x
  proof -
    from that obtain old where "map_of acc st = Some old" "x \<in> set old"
      by (cases "map_of acc st") (auto simp: regs_def)
    from model_reducers_names [OF acc this] have "fst x \<in> fst ` set m" by simp
    then show ?thesis using assms(2) by (metis map_of_eq_None_iff)
  qed
  then have 2: "filter (\<lambda>r. INITIALIZE_ACTION = fst r) regs = []"
    unfolding filter_empty_conv by metis
  show ?thesis using 1 2 by blast
qed

lemma merged_on_first:
  assumes "filter (\<lambda>r. atype a = fst r) regs = [(n, RFunction fn)]"
  shows "\<exists>rest. fst (merged_on True regs ((cur, a) # src)) = Reducer (state_reducer n fn a) # rest"
  using assms by (simp add: merged_on_def split: prod.splits)

lemma default_initialize_copies:
  assumes "\<not> (truthy (js_get (JObj ps) ''data'') \<and> truthy (js_get (JObj ps) ''_reqId''))"
  shows "fst (state_reducer INITIALIZE_ACTION default_initialize (initial_action (JObj ps)) s) = JObj ps"
  using assms
  by (auto simp: state_reducer_def default_initialize_def initial_action_def action_payload_def Let_def)

lemma init_all_fields:
  assumes "init_all srcs opt intent model initialState currentState = Inr c"
  shows "c_initialState c = initialState" and "c_currentState c = currentState"
    and "c_stateSourceName c = o_stateSourceName opt"
    and "c_intent c = intent"
    and "c_model c = fst (initState (o_stateSourceName opt) model)"
    and "initModel (o_name opt) (o_stateSourceName opt)
           (fst (initState (o_stateSourceName opt) model)) = Inr (c_reducers c)"
    and "\<exists>intent_s. initIntent srcs intent = Inr intent_s
           \<and> c_action_s c = initAction srcs (o_requestSourceName opt) intent_s"
    and "\<exists>children_s. initChildren srcs (o_children opt) = Inr children_s
           \<and> initSinks srcs (o_DOMSourceName opt) (o_stateSourceName opt)
                (o_requestSourceName opt) children_s (o_view opt) (c_sendResponse_s c)
              = Inr (c_sinks c)"
  using assms by (auto simp: init_all_def split: sum.splits)

text \<open>the state sink that \<open>initSinks\<close> makes\<close>

lemma map_of_assign_same: "map_of (assign k v ps) k = Some v"
  by (induction ps) auto

lemma map_of_assign_other: "k' \<noteq> k \<Longrightarrow> map_of (assign k v ps) k' = map_of ps k'"
  by (induction ps) auto

lemma own_sinks_state:
  assumes "own_sinks srcs dn st ch names acc = Inr res" and "st \<noteq> dn"
  shows "map_of res st =
           (if st \<in> set names then Some (ModelSink st (children_of ch st)) else map_of acc st)
         \<and> (st \<in> set names \<longrightarrow> (\<exists>src. map_of srcs st = Some src \<and> src_has_stream src))"
  using assms(1)
proof (induction names arbitrary: acc)
  case Nil
  then show ?case by simp
next
  case (Cons name names)
  show ?case
  proof (cases "name = dn")
    case True
    then have "own_sinks srcs dn st ch names acc = Inr res" using Cons.prems by simp
    from Cons.IH [OF this] show ?thesis using True assms(2) by auto
  next
    case False
    show ?thesis
    proof (cases "name = st")
      case True
      obtain src where src: "map_of srcs st = Some src" "src_has_stream src"
        and r: "own_sinks srcs dn st ch names
                  (assign st (ModelSink st (children_of ch st)) acc) = Inr res"
        using Cons.prems True False
        by (cases "map_of srcs st") (auto split: if_splits)
      from Cons.IH [OF r] show ?thesis
        using True src by (simp add: map_of_assign_same)
    next
      case other: False
      then have "own_sinks srcs dn st ch names
                   (assign name (ModelSink name (children_of ch name)) acc) = Inr res"
        using Cons.prems False by simp
      from Cons.IH [OF this] show ?thesis
        using other by (auto simp: map_of_assign_other)
    qed
  qed
qed

lemma initSinks_state:
  assumes "initSinks srcs dn st rq ch v cmds = Inr sinks"
    and "st \<noteq> dn" and "st \<noteq> rq" and "st \<in> fst ` set srcs"
  shows "map_of sinks st = Some (ModelSink st (children_of ch st))"
    and "\<exists>src. map_of srcs st = Some src \<and> src_has_stream src"
proof -
  obtain acc where acc: "own_sinks srcs dn st ch (map fst srcs) [] = Inr acc"
    and sinks: "sinks = assign rq (ResponseSink cmds (map_of (assign dn (ViewSink v) acc) rq))
                          (assign dn (ViewSink v) acc)"
    using assms(1) by (auto simp: initSinks_def Let_def split: sum.splits)
  have names: "st \<in> set (map fst srcs)" using assms(4) by simp
  from own_sinks_state [OF acc assms(2)] names
  have a: "map_of acc st = Some (ModelSink st (children_of ch st))"
    and b: "\<exists>src. map_of srcs st = Some src \<and> src_has_stream src"
    by simp_all
  show "map_of sinks st = Some (ModelSink st (children_of ch st))"
    using a assms(2,3) by (simp add: sinks map_of_assign_other)
  show "\<exists>src. map_of srcs st = Some src \<and> src_has_stream src" by (rule b)
qed

lemma constructor_success:
  assumes "constructor flag opt = (Inr c, flag')"
  shows "\<exists>srcs cur. o_sources opt = Some srcs
     \<and> (if flag \<and> intent_undefined (o_intent opt) \<and> o_model opt = None
         then init_all srcs opt noop_intent (Some noop_model)
                (js_or (o_initialState opt) (JBool True)) cur
         else init_all srcs opt (o_intent opt) (o_model opt) (o_initialState opt) cur) = Inr c"
  using assms by (cases "o_sources opt") (auto simp: constructor_def Let_def split: if_splits)

text \<open>
  C3, as stated, fails: the default handler copies the properties of its data into a
  new object, the seeding is skipped for a falsy initial state, and the payload rule
  of \<^verbatim>\<open>makeOnAction\<close> applies to the seeded action too. With the initial state 5 the
  first state is the empty object; with the initial state 0 the state sink emits
  nothing of its own; with \<^verbatim>\<open>{ data: { x: 1 }, _reqId: 'r' }\<close> the first state is
  \<^verbatim>\<open>{ x: 1 }\<close>. And a component whose sources have no state source has no state sink
  at all, whatever its initial state.
\<close>

theorem number_initial_state_counterexample:
  "state_values (fst (constructor False (counter_opts (JNum 5)))) [] JUndefined
       = Inr (Some [JObj []])
   \<and> state_values (fst (constructor False (counter_opts (JNum 0)))) [] JUndefined = Inr (Some [])
   \<and> state_values (fst (constructor False (counter_opts
         (JObj [(''data'', JObj [(''x'', JNum 1)]), (''_reqId'', JStr ''r'')])))) [] JUndefined
       = Inr (Some [JObj [(''x'', JNum 1)]])
   \<and> state_values (fst (constructor False
         ((counter_opts (JObj [(''count'', JNum 0)]))\<lparr>o_sources := Some [(''HTTP'', http_source)]\<rparr>)))
         [] JUndefined = Inr None"
  by code_simp

text \<open>
  C3, amended. Take a component without children whose sources hold the state source,
  under a name that is neither the DOM name nor the name of the request source. When
  its construction succeeds with a model that has no \<^verbatim>\<open>INITIALIZE\<close> entry and an initial
  state that is an object (not one with both a truthy \<^verbatim>\<open>data\<close> and a truthy \<^verbatim>\<open>_reqId\<close>
  property, which the payload rule would unwrap), the state source has a stream, the
  component has a state sink, and the first state that sink produces is an object with
  the properties of the initial state, whatever actions are delivered and whatever
  state the driver starts from.
\<close>

theorem initial_object_is_first_state:
  assumes "\<not> isl (fst (constructor flag opt))"
    and "o_model opt = Some m" and "map_of m INITIALIZE_ACTION = None"
    and "o_initialState opt = JObj ps"
    and "\<not> (truthy (js_get (JObj ps) ''data'') \<and> truthy (js_get (JObj ps) ''_reqId''))"
    and "o_sources opt = Some srcs" and "o_stateSourceName opt \<in> fst ` set srcs"
    and "o_stateSourceName opt \<noteq> o_DOMSourceName opt"
    and "o_stateSourceName opt \<noteq> o_requestSourceName opt"
    and "o_children opt = []"
  shows "(\<exists>src. map_of srcs (o_stateSourceName opt) = Some src \<and> src_has_stream src)
    \<and> (\<exists>rest. state_values (fst (constructor flag opt)) action_s s = Inr (Some (JObj ps # rest)))"
proof -
  let ?st = "o_stateSourceName opt"
  let ?m' = "m @ [(INITIALIZE_ACTION, SObject [(?st, RFunction default_initialize)])]"
  obtain c where "fst (constructor flag opt) = Inr c"
    using assms(1) by (cases "fst (constructor flag opt)") auto
  then have con: "constructor flag opt = (Inr c, snd (constructor flag opt))"
    by (cases "constructor flag opt") simp
  obtain cur where c: "init_all srcs opt (o_intent opt) (Some m) (JObj ps) cur = Inr c"
    using constructor_success [OF con] assms(2,4,6) by auto
  have sinks: "initSinks srcs (o_DOMSourceName opt) ?st (o_requestSourceName opt) []
                 (o_view opt) (c_sendResponse_s c) = Inr (c_sinks c)"
    using init_all_fields(8) [OF c] assms(10) by simp
  have sink: "map_of (c_sinks c) ?st = Some (ModelSink ?st [])"
    using initSinks_state(1) [OF sinks assms(8,9,7)] by (simp add: children_of_def)
  have stream: "\<exists>src. map_of srcs ?st = Some src \<and> src_has_stream src"
    by (rule initSinks_state(2) [OF sinks assms(8,9,7)])
  have ist: "fst (initState ?st (Some m)) = Some ?m'"
    using assms(3) by (simp add: initState_def)
  have res: "model_reducers (o_name opt) ?st ?m' [] = Inr (c_reducers c)"
    using init_all_fields(6) [OF c] by (simp add: ist initModel_def)
  have ci: "c_initialState c = JObj ps" and cs: "c_stateSourceName c = ?st"
    using init_all_fields(1,3) [OF c] by simp_all
  obtain regs where regs: "map_of (c_reducers c) ?st = Some (regs @ [(INITIALIZE_ACTION, RFunction default_initialize)])"
    and none: "filter (\<lambda>r. INITIALIZE_ACTION = fst r) regs = []"
    using default_initialize_registered [OF res assms(3)] by blast
  have f: "filter (\<lambda>r. atype (initial_action (JObj ps)) = fst r)
             (regs @ [(INITIALIZE_ACTION, RFunction default_initialize)])
           = [(INITIALIZE_ACTION, RFunction default_initialize)]"
    using none by (simp add: initial_action_def)
  obtain rest where rest: "fst (merged_on True (regs @ [(INITIALIZE_ACTION, RFunction default_initialize)])
        ((c_currentState c, initial_action (JObj ps)) # action_s))
      = Reducer (state_reducer INITIALIZE_ACTION default_initialize (initial_action (JObj ps))) # rest"
    using merged_on_first [OF f] by blast
  obtain es err where ms: "model_sink ?st (JObj ps) (c_currentState c) (c_reducers c) ?st action_s
      = (es, err)"
    by (cases "model_sink ?st (JObj ps) (c_currentState c) (c_reducers c) ?st action_s")
  have es: "es = Reducer (state_reducer INITIALIZE_ACTION default_initialize (initial_action (JObj ps))) # rest"
    using rest ms by (simp add: model_sink_def regs shimmed_def)
  have "sink_stream c (c_stateSourceName c) action_s = Emits es err"
    by (simp add: sink_stream_def sink ci cs ms)
  then have "state_values (fst (constructor flag opt)) action_s s
      = Inr (Some (JObj ps # state_seq rest (JObj ps)))"
    using default_initialize_copies [OF assms(5)] \<open>fst (constructor flag opt) = Inr c\<close>
    by (simp add: state_values_def es)
  then show ?thesis using stream by blast
qed

text \<open>With the initial state \<^verbatim>\<open>{ count: 0 }\<close> and one action delivered.\<close>

theorem initial_object_is_first_state_witness:
  "\<not> isl (fst (constructor False (counter_opts (JObj [(''count'', JNum 0)]))))
   \<and> ''STATE'' \<in> fst ` set two_sources
   \<and> (\<exists>src. map_of two_sources ''STATE'' = Some src \<and> src_has_stream src)
   \<and> (\<exists>rest. state_values (fst (constructor False (counter_opts (JObj [(''count'', JNum 0)]))))
                [(JUndefined, plain_action ''KEEP'' JUndefined)] JUndefined
              = Inr (Some (JObj [(''count'', JNum 0)] # rest)))"
proof -
  have 1: "\<not> isl (fst (constructor False (counter_opts (JObj [(''count'', JNum 0)]))))"
    by code_simp
  have 2: "o_model (counter_opts (JObj [(''count'', JNum 0)]))
             = Some [(''KEEP'', SFunction (\<lambda>state d req. (state, [])))]"
    by (simp add: counter_opts_def)
  have 3: "map_of [(''KEEP'', SFunction (\<lambda>state d req. (state, [])))] INITIALIZE_ACTION = None"
    by (simp add: INITIALIZE_ACTION_def)
  have 4: "o_initialState (counter_opts (JObj [(''count'', JNum 0)])) = JObj [(''count'', JNum 0)]"
    by (simp add: counter_opts_def)
  have 5: "\<not> (truthy (js_get (JObj [(''count'', JNum 0)]) ''data'')
              \<and> truthy (js_get (JObj [(''count'', JNum 0)]) ''_reqId''))"
    by simp
  have 6: "o_sources (counter_opts (JObj [(''count'', JNum 0)])) = Some two_sources"
    "o_stateSourceName (counter_opts (JObj [(''count'', JNum 0)])) = ''STATE''"
    "o_DOMSourceName (counter_opts (JObj [(''count'', JNum 0)])) = ''DOM''"
    "o_requestSourceName (counter_opts (JObj [(''count'', JNum 0)])) = ''HTTP''"
    "o_children (counter_opts (JObj [(''count'', JNum 0)])) = []"
    by (simp_all add: counter_opts_def bare_opts_def)
  have 7: "''STATE'' \<in> fst ` set two_sources"
    by (simp add: two_sources_def)
  show ?thesis
    using initial_object_is_first_state [OF 1 2 3 4 5 6(1), where action_s =
        "[(JUndefined, plain_action ''KEEP'' JUndefined)]" and s = JUndefined] 1 6 7
    by simp
qed

section \<open>The process-wide flag\<close>

lemma constructor_clears_flag: "o_sources opt \<noteq> None \<Longrightarrow> snd (constructor flag opt) = False"
  by (cases "o_sources opt") (auto simp: constructor_def Let_def)

lemma constructor_keeps_cleared_flag: "snd (constructor False opt) = False"
  by (cases "o_sources opt") (auto simp: constructor_def Let_def)

lemma construct_all_cleared:
  "construct_all False opts = (map (\<lambda>opt. fst (constructor False opt)) opts, False)"
proof (induction opts)
  case Nil
  then show ?case by simp
next
  case (Cons opt opts)
  obtain r where "constructor False opt = (r, False)"
    using constructor_keeps_cleared_flag [of opt] by (cases "constructor False opt") simp
  then show ?case using Cons by simp
qed

lemma initIntent_undefined: "intent_undefined i \<Longrightarrow> initIntent srcs i = Inr None"
  by (cases i) (auto simp: initIntent_def)

lemma intent_undefined_eq: "intent_undefined i \<Longrightarrow> i = IntentUndefined"
  by (cases i) auto

text \<open>
  C9. Once a constructor call has passed the sources check the flag is cleared. A
  component constructed with the flag cleared and with neither intent nor model keeps
  both undefined: no reducers are registered, its action stream is \<^verbatim>\<open>xs.never()\<close> and its
  initial state is the one given. In a series of constructions every one after a first
  that passed the sources check runs with the flag cleared. Only with the flag set does
  such a component get the no-op intent and model, the bootstrap action, and
  \<^verbatim>\<open>initialState || true\<close>.
\<close>

theorem only_first_component_gets_defaults:
  "(o_sources opt \<noteq> None \<longrightarrow> snd (constructor flag opt) = False)
   \<and> (fst (constructor False opt) = Inr c \<and> intent_undefined (o_intent opt) \<and> o_model opt = None
        \<longrightarrow> c_intent c = IntentUndefined \<and> c_model c = None \<and> c_reducers c = []
            \<and> c_action_s c = NeverStream \<and> c_initialState c = o_initialState opt)
   \<and> (o_sources first \<noteq> None
        \<longrightarrow> fst (construct_all flag (first # later))
            = fst (constructor flag first) # map (\<lambda>opt. fst (constructor False opt)) later)
   \<and> (fst (constructor True opt) = Inr c \<and> o_sources opt = Some srcs
       \<and> intent_undefined (o_intent opt) \<and> o_model opt = None
        \<longrightarrow> c_intent c = noop_intent
            \<and> c_model c = Some (noop_model @ [(INITIALIZE_ACTION,
                                  SObject [(o_stateSourceName opt, RFunction default_initialize)])])
            \<and> c_action_s c = MergeStream [plain_action BOOTSTRAP_ACTION JUndefined]
                                (hydrate srcs (o_requestSourceName opt))
            \<and> c_initialState c = js_or (o_initialState opt) (JBool True))"
proof -
  have 1: "o_sources opt \<noteq> None \<longrightarrow> snd (constructor flag opt) = False"
    using constructor_clears_flag by simp
  have 2: "c_intent c = IntentUndefined \<and> c_model c = None \<and> c_reducers c = []
            \<and> c_action_s c = NeverStream \<and> c_initialState c = o_initialState opt"
    if a: "fst (constructor False opt) = Inr c" and i: "intent_undefined (o_intent opt)"
      and m: "o_model opt = None"
  proof -
    have "constructor False opt = (Inr c, snd (constructor False opt))"
      using a by (cases "constructor False opt") simp
    from constructor_success [OF this]
    obtain srcs cur where c: "init_all srcs opt (o_intent opt) None (o_initialState opt) cur = Inr c"
      using m by auto
    have "c_reducers c = []"
      using init_all_fields(6) [OF c] by (simp add: initState_def initModel_def)
    moreover have "c_action_s c = NeverStream"
      using init_all_fields(7) [OF c] by (auto simp: initIntent_undefined [OF i] initAction_def)
    ultimately show ?thesis
      using init_all_fields(1,4,5) [OF c] intent_undefined_eq [OF i] by (simp add: initState_def)
  qed
  have 3: "fst (construct_all flag (first # later))
            = fst (constructor flag first) # map (\<lambda>opt. fst (constructor False opt)) later"
    if f: "o_sources first \<noteq> None"
  proof -
    obtain r where "constructor flag first = (r, False)"
      using constructor_clears_flag [OF f, of flag] by (cases "constructor flag first") simp
    then show ?thesis by (simp add: construct_all_cleared)
  qed
  have 4: "c_intent c = noop_intent
            \<and> c_model c = Some (noop_model @ [(INITIALIZE_ACTION,
                                  SObject [(o_stateSourceName opt, RFunction default_initialize)])])
            \<and> c_action_s c = MergeStream [plain_action BOOTSTRAP_ACTION JUndefined]
                                (hydrate srcs (o_requestSourceName opt))
            \<and> c_initialState c = js_or (o_initialState opt) (JBool True)"
    if a: "fst (constructor True opt) = Inr c" and s: "o_sources opt = Some srcs"
      and i: "intent_undefined (o_intent opt)" and m: "o_model opt = None"
  proof -
    have "constructor True opt = (Inr c, snd (constructor True opt))"
      using a by (cases "constructor True opt") simp
    from constructor_success [OF this]
    obtain cur where c: "init_all srcs opt noop_intent (Some noop_model)
                (js_or (o_initialState opt) (JBool True)) cur = Inr c"
      using m i s by auto
    have "c_action_s c = MergeStream [plain_action BOOTSTRAP_ACTION JUndefined]
                                (hydrate srcs (o_requestSourceName opt))"
      using init_all_fields(7) [OF c] by (auto simp: initIntent_def noop_intent_def initAction_def)
    then show ?thesis
      using init_all_fields(1,4,5) [OF c]
      by (simp add: initState_def noop_model_def INITIALIZE_ACTION_def)
  qed
  show ?thesis using 1 2 3 4 by blast
qed

text \<open>Two components without intent and model, one after the other.\<close>

theorem only_first_component_gets_defaults_witness:
  "snd (constructor True bare_opts) = False
   \<and> fst (construct_all True [bare_opts, bare_opts])
       = [fst (constructor True bare_opts),
          Inr \<lparr>c_name = ''bare'', c_intent = IntentUndefined, c_model = None,
               c_initialState = JUndefined, c_currentState = JObj [],
               c_stateSourceName = ''STATE'', c_action_s = NeverStream,
               c_response_s = None, c_reducers = [], c_sendResponse_s = [],
               c_children_s = [],
               c_sinks = [(''STATE'', ModelSink ''STATE'' []),
                          (''HTTP'', ResponseSink [] (Some (ModelSink ''HTTP'' []))),
                          (''DOM'', ViewSink False)]\<rparr>]
   \<and> (\<exists>c. fst (constructor True bare_opts) = Inr c \<and> c_intent c = noop_intent
          \<and> c_initialState c = JBool True
          \<and> c_action_s c = MergeStream [plain_action BOOTSTRAP_ACTION JUndefined] [])"
proof -
  have s: "o_sources bare_opts \<noteq> None" "o_sources bare_opts = Some two_sources"
    "o_requestSourceName bare_opts = ''HTTP''" "intent_undefined (o_intent bare_opts)"
    "o_model bare_opts = None" "o_initialState bare_opts = JUndefined"
    by (simp_all add: bare_opts_def)
  have later: "fst (constructor False bare_opts) = Inr \<lparr>c_name = ''bare'', c_intent = IntentUndefined, c_model = None,
         c_initialState = JUndefined, c_currentState = JObj [],
         c_stateSourceName = ''STATE'', c_action_s = NeverStream,
         c_response_s = None, c_reducers = [], c_sendResponse_s = [],
         c_children_s = [],
         c_sinks = [(''STATE'', ModelSink ''STATE'' []),
                    (''HTTP'', ResponseSink [] (Some (ModelSink ''HTTP'' []))),
                    (''DOM'', ViewSink False)]\<rparr>"
    by (simp add: constructor_def bare_opts_def two_sources_def state_source_def http_source_def js_or_def
       init_all_def initIntent_def initAction_def initResponse_def initState_def initModel_def
       initSendResponse_def initSinks_def children_of_def)
  have first: "\<not> isl (fst (constructor True bare_opts))"
    by code_simp
  then obtain c where c: "fst (constructor True bare_opts) = Inr c"
    by (cases "fst (constructor True bare_opts)") auto
  have h: "hydrate two_sources ''HTTP'' = []"
    by (simp add: hydrate_def two_sources_def http_source_def)
  note t = only_first_component_gets_defaults [where opt = bare_opts and first = bare_opts
      and later = "[bare_opts]" and flag = True and c = c and srcs = two_sources]
  show ?thesis using t s later c h by (simp add: js_or_def)
qed


section \<open>A response function without a request\<close>

text \<open>
  C7, against the code. \<^verbatim>\<open>initResponse$\<close> returns at once when no request parameter is
  given, before it reaches its check for a response parameter without a request; the
  constructor then completes for a response function that returns an object.
\<close>

theorem response_without_request_constructs:
  "initResponse srcs requestSourceName RequestUndefined True = Inr None
   \<and> select None SelectAll = Inr None
   \<and> initSendResponse None (ResponseFunction (\<lambda>sel. Inr (OutObject []))) = Inr []
   \<and> \<not> isl (fst (constructor flag response_only_opts))"
proof -
  have 0: "select None SelectAll = Inr None"
    "initSendResponse None (ResponseFunction (\<lambda>sel. Inr (OutObject []))) = Inr []"
    by (simp_all add: initSendResponse_def)
  have 1: "initResponse srcs requestSourceName RequestUndefined True = Inr None"
    by (simp add: initResponse_def)
  have "\<not> isl (fst (constructor True response_only_opts))"
    "\<not> isl (fst (constructor False response_only_opts))"
    by code_simp+
  then have 2: "\<not> isl (fst (constructor flag response_only_opts))"
    by (cases flag) simp_all
  show ?thesis using 0 1 2 by simp
qed


section \<open>Requests without an id\<close>

lemma truthy_id: "truthy (js_get req ''id'') \<Longrightarrow> truthy req"
  by (cases req) auto

lemma route_handler_no_id:
  "\<not> truthy req \<or> \<not> truthy (js_get req ''id'')
   \<Longrightarrow> route_handler srcs currentState r host req =
         \<lparr>h_result = Thrown (Error (''No id found in request: '' @ routeString r)),
          h_console = [], h_effects = []\<rparr>"
  by (auto simp: route_handler_def)

lemma a_reqId_request_action: "a_reqId (request_action t req) = js_get req ''id''"
  by (simp add: request_action_def Let_def)

lemma route_handler_with_id:
  assumes "truthy (js_get req ''id'')"
  shows "route_handler srcs currentState r host req =
     (case access_line host req of
        Inl e \<Rightarrow> \<lparr>h_result = ReturnedUndefined, h_console = [ConsoleError e], h_effects = []\<rparr>
      | Inr line \<Rightarrow>
          (case r_target r of
             ToFunction f \<Rightarrow>
               (case f currentState req of
                  Inl e \<Rightarrow> \<lparr>h_result = ReturnedUndefined,
                             h_console = [line, ConsoleError e], h_effects = []\<rparr>
                | Inr res \<Rightarrow>
                    \<lparr>h_result = ReturnedMerge [[action_obj ((request_action (r_target r) req)\<lparr>adata := res\<rparr>)]],
                     h_console = [line], h_effects = []\<rparr>)
           | ToAction n \<Rightarrow>
               (case selected_responses srcs (js_get req ''id'') of
                  Inl e \<Rightarrow> \<lparr>h_result = ReturnedUndefined,
                             h_console = [line, ConsoleError e],
                             h_effects = [ShamefullySendNext (request_action (r_target r) req)]\<rparr>
                | Inr responses \<Rightarrow>
                    \<lparr>h_result = ReturnedMerge responses, h_console = [line],
                     h_effects = [ShamefullySendNext (request_action (r_target r) req)]\<rparr>)))"
  using assms truthy_id [OF assms]
  by (simp add: route_handler_def Let_def a_reqId_request_action split: sum.splits target.splits)







section \<open>Dispatch and request injection\<close>

lemma perform_all_timeouts:
  "perform_all (map (\<lambda>c. SetTimeout ms (f c)) calls) w
     = w\<lparr>w_pending := w_pending w @ map (\<lambda>c. (ms, f c)) calls\<rparr>"
proof (induction calls arbitrary: w)
  case Nil
  then show ?case by (simp add: perform_all_def)
next
  case (Cons c calls)
  have "perform_all (map (\<lambda>c. SetTimeout ms (f c)) (c # calls)) w
      = perform_all (map (\<lambda>c. SetTimeout ms (f c)) calls) (w\<lparr>w_pending := w_pending w @ [(ms, f c)]\<rparr>)"
    by (simp add: perform_all_def)
  then show ?case using Cons [of "w\<lparr>w_pending := w_pending w @ [(ms, f c)]\<rparr>"] by simp
qed

lemma perform_all_next_calls:
  "perform_all (map (next_call a name) calls) w
     = w\<lparr>w_pending := w_pending w
            @ map (\<lambda>c. (10, [ShamefullySendNext (dispatched a name c)])) calls\<rparr>"
proof -
  have eq: "next_call a name = (\<lambda>c. SetTimeout 10 [ShamefullySendNext (dispatched a name c)])"
    by (rule ext) (simp add: next_call_def)
  show ?thesis unfolding eq by (rule perform_all_timeouts)
qed

lemma fire_all:
  "(fire ^^ length calls) \<lparr>w_bus = b, w_pending = map (\<lambda>c. (ms, [ShamefullySendNext (f c)])) calls\<rparr>
     = \<lparr>w_bus = b @ map f calls, w_pending = []\<rparr>"
proof (induction calls arbitrary: b)
  case Nil
  then show ?case by simp
next
  case (Cons c calls)
  have "(fire ^^ length (c # calls))
          \<lparr>w_bus = b, w_pending = map (\<lambda>c. (ms, [ShamefullySendNext (f c)])) (c # calls)\<rparr>
      = (fire ^^ length calls)
          \<lparr>w_bus = b @ [f c], w_pending = map (\<lambda>c. (ms, [ShamefullySendNext (f c)])) calls\<rparr>"
    by (simp add: funpow_swap1 fire_def perform_all_def)
  then show ?case using Cons [of "b @ [f c]"] by simp
qed

text \<open>
  C4. A reducer's dispatches are effects of the call in which it runs (an effect
  reducer in the mapping, a state reducer when the driver applies the emitted
  function). Performing them pushes nothing into the bus: each \<^verbatim>\<open>next(type, data)\<close> sets
  a timer of 10 ms whose callback pushes the dispatched action, so the call returns the
  reducer's result with the bus as it was and one more timer pending per dispatch. The
  dispatched actions reach the bus, in the order of the calls, when the timers fire in
  later turns. A request with an id on a route mapped to an action name, whose access
  line can be written, has its action in the bus when the handler returns, and no timer
  is set; when the access line cannot be written, or the request has no id, the bus
  is left as it was.
\<close>

theorem dispatch_is_deferred:
  "w_bus (snd (invoke_effect currentState name reducer a w)) = w_bus w
   \<and> w_pending (snd (invoke_effect currentState name reducer a w))
       = w_pending w @ map (\<lambda>c. (10, [ShamefullySendNext (dispatched a name c)]))
                          (snd (reducer currentState (action_payload a) (areq a)))
   \<and> fst (invoke_effect currentState name reducer a w)
       = outcome (effect_reducer currentState name reducer a)
   \<and> w_bus (snd (invoke_state name reducer a state w)) = w_bus w
   \<and> w_pending (snd (invoke_state name reducer a state w))
       = w_pending w @ map (\<lambda>c. (10, [ShamefullySendNext (dispatched a name c)]))
                          (snd (reducer state (action_payload a) (areq a)))
   \<and> (\<not> comparison_raises (fst (reducer state (action_payload a) (areq a)))
        \<longrightarrow> fst (invoke_state name reducer a state w)
              = Inr (fst (state_reducer name reducer a state)))
   \<and> (w_pending w = []
        \<longrightarrow> (fire ^^ length (snd (reducer currentState (action_payload a) (areq a))))
               (snd (invoke_effect currentState name reducer a w))
            = \<lparr>w_bus = w_bus w @ map (dispatched a name)
                                     (snd (reducer currentState (action_payload a) (areq a))),
               w_pending = []\<rparr>)
   \<and> atype (dispatched a name c) = fst c
   \<and> (truthy (js_get req ''id'') \<and> access_line host req = Inr line \<and> r_target r = ToAction n
        \<longrightarrow> snd (handle_request srcs currentState r host req w)
              = w\<lparr>w_bus := w_bus w @ [request_action (ToAction n) req]\<rparr>)
   \<and> (truthy (js_get req ''id'') \<and> access_line host req = Inl e
        \<longrightarrow> snd (handle_request srcs currentState r host req w) = w)
   \<and> (\<not> truthy (js_get req ''id'')
        \<longrightarrow> snd (handle_request srcs currentState r host req w) = w)"
proof -
  obtain v calls where r: "reducer currentState (action_payload a) (areq a) = (v, calls)"
    by (cases "reducer currentState (action_payload a) (areq a)")
  obtain v' calls' where r': "reducer state (action_payload a) (areq a) = (v', calls')"
    by (cases "reducer state (action_payload a) (areq a)")
  have ts: "timers (effect_reducer currentState name reducer a) = map (next_call a name) calls"
    by (simp add: effect_reducer_def r Let_def)
  have e: "snd (invoke_effect currentState name reducer a w)
      = w\<lparr>w_pending := w_pending w
            @ map (\<lambda>c. (10, [ShamefullySendNext (dispatched a name c)])) calls\<rparr>"
    "fst (invoke_effect currentState name reducer a w)
       = outcome (effect_reducer currentState name reducer a)"
    by (simp_all add: invoke_effect_def Let_def ts perform_all_next_calls)
  have s: "snd (invoke_state name reducer a state w)
      = w\<lparr>w_pending := w_pending w
            @ map (\<lambda>c. (10, [ShamefullySendNext (dispatched a name c)])) calls'\<rparr>"
    by (simp add: invoke_state_def state_reducer_def r' perform_all_next_calls)
  have s': "fst (invoke_state name reducer a state w)
              = Inr (fst (state_reducer name reducer a state))"
    if "\<not> comparison_raises (fst (reducer state (action_payload a) (areq a)))"
    using that by (simp add: invoke_state_def split: prod.splits)
  have n: "atype (dispatched a name c) = fst c"
    by (simp add: dispatched_def)
  have f: "(fire ^^ length calls) (snd (invoke_effect currentState name reducer a w))
            = \<lparr>w_bus = w_bus w @ map (dispatched a name) calls, w_pending = []\<rparr>"
    if "w_pending w = []"
  proof -
    have "snd (invoke_effect currentState name reducer a w)
        = \<lparr>w_bus = w_bus w,
           w_pending = map (\<lambda>c. (10, [ShamefullySendNext (dispatched a name c)])) calls\<rparr>"
      using that e(1) by simp
    then show ?thesis
      using fire_all [of calls "w_bus w" 10 "dispatched a name"] by simp
  qed
  have h1: "snd (handle_request srcs currentState r host req w)
              = w\<lparr>w_bus := w_bus w @ [request_action (ToAction n) req]\<rparr>"
    if "truthy (js_get req ''id'')" "access_line host req = Inr line" "r_target r = ToAction n"
    using that route_handler_with_id [OF that(1), of srcs currentState r host]
    by (simp add: handle_request_def Let_def perform_all_def split: sum.splits)
  have h2: "snd (handle_request srcs currentState r host req w) = w"
    if "truthy (js_get req ''id'')" "access_line host req = Inl e"
    using that route_handler_with_id [OF that(1), of srcs currentState r host]
    by (simp add: handle_request_def Let_def perform_all_def)
  have h3: "snd (handle_request srcs currentState r host req w) = w"
    if "\<not> truthy (js_get req ''id'')"
    using that route_handler_no_id [of req srcs currentState r host]
    by (simp add: handle_request_def Let_def perform_all_def)
  show ?thesis using e s s' n f h1 h2 h3 by (simp add: r r')
qed

text \<open>
  A reducer that dispatches \<^verbatim>\<open>NEXT\<close>, on either kind of sink, and three requests from an
  idle bus: \<^verbatim>\<open>r1\<close>, one whose method is a symbol, one without an id.
\<close>

theorem dispatch_is_deferred_witness:
  "snd (invoke_effect JUndefined ''SAVE'' (dispatching (JStr ''ok'') ''NEXT'' (JNum 1))
          save_action \<lparr>w_bus = [], w_pending = []\<rparr>)
     = \<lparr>w_bus = [],
        w_pending = [(10, [ShamefullySendNext
                             (dispatched save_action ''SAVE'' (''NEXT'', JNum 1))])]\<rparr>
   \<and> fire (snd (invoke_effect JUndefined ''SAVE'' (dispatching (JStr ''ok'') ''NEXT'' (JNum 1))
                 save_action \<lparr>w_bus = [], w_pending = []\<rparr>))
     = \<lparr>w_bus = [dispatched save_action ''SAVE'' (''NEXT'', JNum 1)], w_pending = []\<rparr>
   \<and> atype (dispatched save_action ''SAVE'' (''NEXT'', JNum 1)) = ''NEXT''
   \<and> invoke_state ''SAVE'' (dispatching (JNum 2) ''NEXT'' (JNum 1)) save_action (JNum 1)
         \<lparr>w_bus = [], w_pending = []\<rparr>
     = (Inr (JNum 2),
        \<lparr>w_bus = [],
         w_pending = [(10, [ShamefullySendNext
                              (dispatched save_action ''SAVE'' (''NEXT'', JNum 1))])]\<rparr>)
   \<and> snd (handle_request two_sources JUndefined save_route no_host req_r1
            \<lparr>w_bus = [], w_pending = []\<rparr>)
     = \<lparr>w_bus = [save_action], w_pending = []\<rparr>
   \<and> snd (handle_request two_sources JUndefined save_route no_host req_symbol
            \<lparr>w_bus = [], w_pending = []\<rparr>)
     = \<lparr>w_bus = [], w_pending = []\<rparr>
   \<and> snd (handle_request two_sources JUndefined save_route no_host req_no_id
            \<lparr>w_bus = [], w_pending = []\<rparr>)
     = \<lparr>w_bus = [], w_pending = []\<rparr>"
proof -
  have b: "truthy (js_get req_r1 ''id'')" "truthy (js_get req_symbol ''id'')"
    "\<not> truthy (js_get req_no_id ''id'')"
    by (simp_all add: req_r1_def req_symbol_def req_no_id_def)
  have l: "access_line no_host req_r1 = Inr (AccessLog ''0.0.0.0'' ''GET'' ''/x'')"
    "access_line no_host req_symbol = Inl (TypeError ''Cannot convert a Symbol value to a string'')"
    by (simp_all add: access_line_def request_ip_def req_r1_def req_symbol_def Let_def)
  have c: "r_target save_route = ToAction ''SAVE''"
    by (simp add: save_route_def)
  note t = dispatch_is_deferred [where currentState = JUndefined and name = "''SAVE''"
      and a = save_action and w = "\<lparr>w_bus = [], w_pending = []\<rparr>" and c = "(''NEXT'', JNum 1)"
      and r = save_route and n = "''SAVE''" and srcs = two_sources and host = no_host
      and state = "JNum 1"]
  note t1 = t [where reducer = "dispatching (JStr ''ok'') ''NEXT'' (JNum 1)" and req = req_r1
      and line = "AccessLog ''0.0.0.0'' ''GET'' ''/x''"]
  note t2 = t [where reducer = "dispatching (JNum 2) ''NEXT'' (JNum 1)" and req = req_symbol
      and e = "TypeError ''Cannot convert a Symbol value to a string''"]
  note t3 = t [where reducer = "dispatching (JNum 2) ''NEXT'' (JNum 1)" and req = req_no_id]
  have d: "dispatching v ty d' state d req = (v, [(ty, d')])" for v ty d' state d req
    by (simp add: dispatching_def)
  have 1: "snd (invoke_effect JUndefined ''SAVE'' (dispatching (JStr ''ok'') ''NEXT'' (JNum 1))
          save_action \<lparr>w_bus = [], w_pending = []\<rparr>)
     = \<lparr>w_bus = [],
        w_pending = [(10, [ShamefullySendNext
                             (dispatched save_action ''SAVE'' (''NEXT'', JNum 1))])]\<rparr>"
    using t1 by (simp add: d)
  have 2: "fire (snd (invoke_effect JUndefined ''SAVE'' (dispatching (JStr ''ok'') ''NEXT'' (JNum 1))
                 save_action \<lparr>w_bus = [], w_pending = []\<rparr>))
     = \<lparr>w_bus = [dispatched save_action ''SAVE'' (''NEXT'', JNum 1)], w_pending = []\<rparr>"
    using t1 by (simp add: d)
  have 3: "atype (dispatched save_action ''SAVE'' (''NEXT'', JNum 1)) = ''NEXT''"
    using t1 by simp
  have 4: "invoke_state ''SAVE'' (dispatching (JNum 2) ''NEXT'' (JNum 1)) save_action (JNum 1)
         \<lparr>w_bus = [], w_pending = []\<rparr>
     = (Inr (JNum 2),
        \<lparr>w_bus = [],
         w_pending = [(10, [ShamefullySendNext
                              (dispatched save_action ''SAVE'' (''NEXT'', JNum 1))])]\<rparr>)"
    using t2 by (simp add: d prod_eq_iff state_reducer_def)
  have 5: "snd (handle_request two_sources JUndefined save_route no_host req_r1
            \<lparr>w_bus = [], w_pending = []\<rparr>)
     = \<lparr>w_bus = [save_action], w_pending = []\<rparr>"
    using t1 b l c by (simp add: save_action_def)
  have 6: "snd (handle_request two_sources JUndefined save_route no_host req_symbol
            \<lparr>w_bus = [], w_pending = []\<rparr>)
     = \<lparr>w_bus = [], w_pending = []\<rparr>"
    using t2 b l by simp
  have 7: "snd (handle_request two_sources JUndefined save_route no_host req_no_id
            \<lparr>w_bus = [], w_pending = []\<rparr>)
     = \<lparr>w_bus = [], w_pending = []\<rparr>"
    using t3 b by simp
  show ?thesis using 1 2 3 4 5 6 7 by simp
qed

section \<open>Request ids\<close>








end
